theory Spec2Isabelle
  imports Main "HOL-Library.Word" "HOL-Library.AList"
begin

section \<open>Errors\<close>

text \<open>
  Go errors as values. \<open>ModelError m\<close> is \<open>model.Error(m)\<close> (a string type whose
  \<open>Error()\<close> is the string itself); \<open>context_Canceled\<close> and
  \<open>context_DeadlineExceeded\<close> are the two sentinels of package \<open>context\<close>;
  \<open>Joined es\<close> is the result of \<open>errors.Join\<close> on the non-nil errors \<open>es\<close>;
  \<open>Wrapped m e\<close> is an error with message \<open>m\<close> whose \<open>Unwrap()\<close> is \<open>e\<close>;
  \<open>Foreign m\<close> is an error of any other type (with message \<open>m\<close>).
  A Go \<open>error\<close> that may be \<open>nil\<close> is an \<open>error option\<close>.
\<close>

datatype error =
    ModelError string
  | context_Canceled
  | context_DeadlineExceeded
  | Joined "error list"
  | Wrapped string error
  | Foreign string

definition ErrKindUnknown :: error where
  "ErrKindUnknown = ModelError ''gate: unknown kind''"

definition ErrKindNotSupported :: error where
  "ErrKindNotSupported = ModelError ''gate: unsupported kind''"

definition ErrNotImplemented :: error where
  "ErrNotImplemented = ModelError ''gate: not implemented''"

definition ErrSetIsShutting :: error where
  "ErrSetIsShutting = ModelError ''gate: set is shutting''"

definition ErrGateNotFound :: error where
  "ErrGateNotFound = ModelError ''gate: gate not found''"

definition ErrTorMaxReached :: error where
  "ErrTorMaxReached = ModelError ''gate: reached maximum number of tor gates''"

definition ErrGateNotReady :: error where
  "ErrGateNotReady = ModelError ''gate: gate not ready''"

definition ErrGateIsRefreshing :: error where
  "ErrGateIsRefreshing = ModelError ''gate: gate is refreshing''"

definition ErrInvalidParam :: error where
  "ErrInvalidParam = ModelError ''invalid param''"

definition ErrInvalidUUID :: error where
  "ErrInvalidUUID = ModelError ''invalid uuid''"

lemmas Err_defs =
  ErrKindUnknown_def ErrKindNotSupported_def ErrNotImplemented_def ErrSetIsShutting_def
  ErrGateNotFound_def ErrTorMaxReached_def ErrGateNotReady_def ErrGateIsRefreshing_def
  ErrInvalidParam_def ErrInvalidUUID_def

section \<open>Kind\<close>

text \<open>\<open>type Kind string\<close>: any string is a value of the type; four are named.\<close>

type_synonym Kind = string

definition KindUnknown :: Kind where "KindUnknown = ''unknown''"
definition KindDirect :: Kind where "KindDirect = ''direct''"
definition KindTor :: Kind where "KindTor = ''tor''"
definition KindWireGuard :: Kind where "KindWireGuard = ''wireguard''"

lemmas Kind_defs = KindUnknown_def KindDirect_def KindTor_def KindWireGuard_def

definition Kind_String :: "Kind \<Rightarrow> string" where
  "Kind_String x = x"

text \<open>
  \<open>ParseKind\<close> returns both values of the Go pair: on the default branch the kind is
  \<open>KindUnknown\<close> and the error is \<open>ErrKindUnknown\<close>.
\<close>

definition ParseKind :: "string \<Rightarrow> Kind \<times> error option" where
  "ParseKind raw =
     (if raw = KindDirect then (KindDirect, None)
      else if raw = KindTor then (KindTor, None)
      else if raw = KindWireGuard then (KindWireGuard, None)
      else (KindUnknown, Some ErrKindUnknown))"

subsection \<open>JSON form of a kind\<close>

text \<open>
  \<open>encoding/json\<close> is not part of the repository. Its behaviour on a Go string is
  modelled exactly on the fragment the kinds live in, and left to a parameter elsewhere:
  \<^item> \<open>json.Marshal(s)\<close> of a string whose bytes all are in \<open>0x20..0x7f\<close> and none of
    the double quote, the backslash, \<open><\<close>, \<open>>\<close>, \<open>&\<close> is the string between two double quotes, with
    no error; for any other string the result is \<open>enc s\<close>, the library's escaping
    encoder;
  \<^item> \<open>json.Unmarshal(raw, &s)\<close> into an empty string variable, of a text that is,
    between optional JSON white space, a double-quoted run of bytes in \<open>0x20..0x7f\<close>
    with no double quote and no backslash, sets \<open>s\<close> to that run with no error; for any other
    text the outcome (an error, or the value left in \<open>s\<close>) is \<open>dec raw\<close>.
\<close>

definition dquote :: char where
  "dquote = CHR 0x22"

definition json_safe_byte :: "char \<Rightarrow> bool" where
  "json_safe_byte c \<longleftrightarrow>
     (0x20 :: nat) \<le> of_char c \<and> (of_char c :: nat) < 0x80 \<and> c \<noteq> dquote \<and> c \<noteq> CHR 0x5C"

definition json_html_safe_byte :: "char \<Rightarrow> bool" where
  "json_html_safe_byte c \<longleftrightarrow>
     json_safe_byte c \<and> c \<noteq> CHR ''<'' \<and> c \<noteq> CHR ''>'' \<and> c \<noteq> CHR ''&''"

definition json_Marshal :: "(string \<Rightarrow> error + string) \<Rightarrow> string \<Rightarrow> error + string" where
  "json_Marshal enc s =
     (if list_all json_html_safe_byte s then Inr ([dquote] @ s @ [dquote]) else enc s)"

definition json_space :: "char \<Rightarrow> bool" where
  "json_space c \<longleftrightarrow> c = CHR '' '' \<or> c = CHR 0x09 \<or> c = CHR 0x0A \<or> c = CHR 0x0D"

definition json_trim :: "string \<Rightarrow> string" where
  "json_trim raw = rev (dropWhile json_space (rev (dropWhile json_space raw)))"

definition json_plain_literal :: "string \<Rightarrow> string option" where
  "json_plain_literal raw =
     (case json_trim raw of
        [] \<Rightarrow> None
      | c # rest \<Rightarrow>
          if c = dquote \<and> rest \<noteq> [] \<and> last rest = dquote \<and> list_all json_safe_byte (butlast rest)
          then Some (butlast rest) else None)"

definition json_Unmarshal :: "(string \<Rightarrow> error + string) \<Rightarrow> string \<Rightarrow> error + string" where
  "json_Unmarshal dec raw =
     (case json_plain_literal raw of Some s \<Rightarrow> Inr s | None \<Rightarrow> dec raw)"

text \<open>
  \<open>(x *Kind) UnmarshalJSON(raw)\<close>: the result is the value of \<open>*x\<close> after the call
  and the returned error; \<open>*x\<close> is assigned only when both steps succeed.
\<close>

definition UnmarshalJSON ::
  "(string \<Rightarrow> error + string) \<Rightarrow> Kind \<Rightarrow> string \<Rightarrow> Kind \<times> error option" where
  "UnmarshalJSON dec x raw =
     (case json_Unmarshal dec raw of
        Inl err \<Rightarrow> (x, Some err)
      | Inr s \<Rightarrow>
          (case ParseKind s of
             (val, Some err) \<Rightarrow> (x, Some err)
           | (val, None) \<Rightarrow> (val, None)))"

definition MarshalJSON :: "(string \<Rightarrow> error + string) \<Rightarrow> Kind \<Rightarrow> error + string" where
  "MarshalJSON enc x =
     (if x = KindUnknown \<or> x = KindDirect \<or> x = KindTor \<or> x = KindWireGuard
      then json_Marshal enc x
      else Inl ErrKindUnknown)"

section \<open>Gate state cell\<close>

text \<open>
  \<open>type state uint32\<close> with \<open>stateReady = 0\<close>, \<open>stateMaintenance = 1\<close>,
  \<open>stateClosed = 2\<close> (an \<open>iota\<close> block). \<open>gateState\<close> holds the atomic state word and
  the request counter, a \<open>uint64\<close>; the mutex only serialises the counter's
  operations, each of which is one step here.
\<close>

type_synonym state = "32 word"

definition stateReady :: state where "stateReady = 0"
definition stateMaintenance :: state where "stateMaintenance = 1"
definition stateClosed :: state where "stateClosed = 2"

lemmas state_defs = stateReady_def stateMaintenance_def stateClosed_def

record gateState =
  stvalue :: "32 word"
  nreq :: "64 word"

definition newGateState :: gateState where
  "newGateState = \<lparr>stvalue = 0, nreq = 0\<rparr>"

text \<open>\<open>atomic.CompareAndSwapUint32(addr, old, new)\<close>: the new content and whether it swapped.\<close>

definition CompareAndSwapUint32 :: "32 word \<Rightarrow> 32 word \<Rightarrow> 32 word \<Rightarrow> 32 word \<times> bool" where
  "CompareAndSwapUint32 v old new = (if v = old then (new, True) else (v, False))"

definition toReady :: "gateState \<Rightarrow> gateState" where
  "toReady s = s\<lparr>stvalue := fst (CompareAndSwapUint32 (stvalue s) stateMaintenance stateReady)\<rparr>"

definition toMaint :: "gateState \<Rightarrow> gateState" where
  "toMaint s = s\<lparr>stvalue := fst (CompareAndSwapUint32 (stvalue s) stateReady stateMaintenance)\<rparr>"

definition toClosed :: "gateState \<Rightarrow> gateState" where
  "toClosed s =
     (case CompareAndSwapUint32 (stvalue s) stateReady stateClosed of
        (v, True) \<Rightarrow> s\<lparr>stvalue := v\<rparr>
      | (v, False) \<Rightarrow> s\<lparr>stvalue := fst (CompareAndSwapUint32 v stateMaintenance stateClosed)\<rparr>)"

definition getState :: "gateState \<Rightarrow> state" where
  "getState s = stvalue s"

definition addReq :: "gateState \<Rightarrow> gateState" where
  "addReq s = s\<lparr>nreq := nreq s + 1\<rparr>"

definition didReq :: "gateState \<Rightarrow> gateState" where
  "didReq s = (if nreq s > 0 then s\<lparr>nreq := nreq s - 1\<rparr> else s)"

definition reqNum :: "gateState \<Rightarrow> 64 word" where
  "reqNum s = nreq s"

definition noReqs :: "gateState \<Rightarrow> bool" where
  "noReqs s \<longleftrightarrow> nreq s = 0"

definition resetReqs :: "gateState \<Rightarrow> gateState" where
  "resetReqs s = s\<lparr>nreq := 0\<rparr>"

text \<open>
  \<open>baseGate.toState(st)\<close> on the gate's cell: a \<open>switch\<close> with no default, so a value
  that is none of the three states changes nothing.
\<close>

definition toState :: "state \<Rightarrow> gateState \<Rightarrow> gateState" where
  "toState st s =
     (if st = stateReady then toReady s
      else if st = stateMaintenance then toMaint s
      else if st = stateClosed then toClosed s
      else s)"

text \<open>A sequence of transition requests, applied in order.\<close>

definition toStates :: "state list \<Rightarrow> gateState \<Rightarrow> gateState" where
  "toStates sts s = foldl (\<lambda>c st. toState st c) s sts"

text \<open>
  The legal transitions as the specification lists them: Ready to Maintenance, Ready to
  Closed, Maintenance to Ready, Maintenance to Closed.
\<close>

definition legal_transition :: "state \<Rightarrow> state \<Rightarrow> bool" where
  "legal_transition a b \<longleftrightarrow>
     (a = stateReady \<and> b = stateMaintenance) \<or> (a = stateReady \<and> b = stateClosed) \<or>
     (a = stateMaintenance \<and> b = stateReady) \<or> (a = stateMaintenance \<and> b = stateClosed)"

text \<open>Calls of \<open>AddReq\<close> and \<open>DidReq\<close> on a gate, in the order they take the lock.\<close>

datatype req_call = AddReq | DidReq

fun req_step :: "gateState \<Rightarrow> req_call \<Rightarrow> gateState" where
  "req_step s AddReq = addReq s"
| "req_step s DidReq = didReq s"

definition req_calls :: "req_call list \<Rightarrow> gateState \<Rightarrow> gateState" where
  "req_calls cs s = foldl req_step s cs"

text \<open>
  The counter the specification describes, on unbounded naturals: increment, and
  decrement saturating at zero.
\<close>

fun spec_count :: "nat \<Rightarrow> req_call list \<Rightarrow> nat" where
  "spec_count n [] = n"
| "spec_count n (AddReq # cs) = spec_count (Suc n) cs"
| "spec_count n (DidReq # cs) = spec_count (n - 1) cs"

section \<open>The concurrent map of package model\<close>

text \<open>
  \<open>model.Set[K, V]\<close> wraps a Go map behind a lock. It is an association list read
  through \<open>map_of\<close>: \<open>Set\<close> overwrites or adds a key, \<open>Remove\<close> deletes it,
  \<open>Len\<close> counts the keys. The lock makes each operation one step.
\<close>

type_synonym ('k, 'v) mset = "('k \<times> 'v) list"

definition NewSetSize :: "('k, 'v) mset" where
  "NewSetSize = []"

definition Set_Get :: "('k, 'v) mset \<Rightarrow> 'k \<Rightarrow> 'v option" where
  "Set_Get m k = map_of m k"

definition Set_Set :: "'k \<Rightarrow> 'v \<Rightarrow> ('k, 'v) mset \<Rightarrow> ('k, 'v) mset" where
  "Set_Set k v m = AList.update k v m"

definition Set_Remove :: "'k \<Rightarrow> ('k, 'v) mset \<Rightarrow> ('k, 'v) mset" where
  "Set_Remove k m = AList.delete k m"

definition Set_Len :: "('k, 'v) mset \<Rightarrow> nat" where
  "Set_Len m = length (remdups (map fst m))"

section \<open>Gates and the gate set\<close>

text \<open>
  A gate object. \<open>gtype\<close> is the Go type of the object behind the \<open>exitGateExt\<close>
  interface (\<open>*Direct\<close>, \<open>*Tor\<close> or \<open>*WireGuard\<close>); \<open>kind\<close>, \<open>gid\<close> and
  \<open>cell\<close> are the fields of the embedded \<open>baseGate\<close>; \<open>refreshing\<close> is the flag of
  a Tor gate. The devices, dialers and HTTP clients are outside the model: what they
  return is an input of the operation that calls them.
\<close>

type_synonym uuid = "128 word"

definition uuid_Nil :: uuid where
  "uuid_Nil = 0"

datatype gateType = TDirect | TTor | TWireGuard

record gate =
  gtype :: gateType
  kind :: Kind
  gid :: uuid
  cell :: gateState
  refreshing :: "32 word"

definition newDirect :: "uuid \<Rightarrow> gate" where
  "newDirect i = \<lparr>gtype = TDirect, kind = KindDirect, gid = i, cell = newGateState, refreshing = 0\<rparr>"

definition newTor :: "uuid \<Rightarrow> gate" where
  "newTor i = \<lparr>gtype = TTor, kind = KindTor, gid = i, cell = newGateState, refreshing = 0\<rparr>"

definition newWireGuard :: "uuid \<Rightarrow> gate" where
  "newWireGuard i =
     \<lparr>gtype = TWireGuard, kind = KindWireGuard, gid = i, cell = newGateState, refreshing = 0\<rparr>"

text \<open>
  The set holds pointers to gates, and a request that picked a gate keeps its pointer
  while the gate is out of the maps. So gates live in a heap, addressed by \<open>ref\<close>, and
  the maps hold addresses. \<open>world\<close> is that heap (with the next free address) together
  with the fields of \<open>Set\<close>: \<open>TorMax\<close> of its configuration, whether \<open>onceShut\<close> has
  run, whether the \<open>shutting\<close> channel is closed, the address of the Direct gate, and
  the two maps. Timeouts and delays are real time; the loops that wait on them take
  their outcome from a schedule instead.
\<close>

type_synonym ref = nat

record world =
  heap :: "ref \<Rightarrow> gate"
  nextref :: ref
  TorMax :: int
  onceShut :: bool
  shutting :: bool
  drt :: ref
  tgs :: "(uuid, ref) mset"
  wgs :: "(uuid, ref) mset"

text \<open>
  \<open>NewSet(cfg, dct, tgs, wgs)\<close>: the Direct gate is allocated at address 0, the Tor
  gates after it, the WireGuard gates last; each list is inserted in order, keyed by the
  gate's id.
\<close>

definition NewSet :: "int \<Rightarrow> gate \<Rightarrow> gate list \<Rightarrow> gate list \<Rightarrow> world" where
  "NewSet tormax dct ts ws =
     (let objs = dct # ts @ ws in
      \<lparr>heap = (\<lambda>r. if r < length objs then objs ! r else dct),
       nextref = length objs,
       TorMax = tormax,
       onceShut = False,
       shutting = False,
       drt = 0,
       tgs = foldl (\<lambda>m (r, g). Set_Set (gid g) r m) NewSetSize (zip [1 ..< Suc (length ts)] ts),
       wgs = foldl (\<lambda>m (r, g). Set_Set (gid g) r m) NewSetSize
               (zip [Suc (length ts) ..< Suc (length ts + length ws)] ws)\<rparr>)"

definition isShutting :: "world \<Rightarrow> bool" where
  "isShutting w = shutting w"

text \<open>The methods of \<open>baseGate\<close>, on the gate at an address.\<close>

definition on_cell :: "(gateState \<Rightarrow> gateState) \<Rightarrow> ref \<Rightarrow> world \<Rightarrow> world" where
  "on_cell f r w = w\<lparr>heap := (heap w)(r := (heap w r)\<lparr>cell := f (cell (heap w r))\<rparr>)\<rparr>"

definition gate_AddReq :: "ref \<Rightarrow> world \<Rightarrow> world" where
  "gate_AddReq r w = on_cell addReq r w"

definition gate_DidReq :: "ref \<Rightarrow> world \<Rightarrow> world" where
  "gate_DidReq r w = on_cell didReq r w"

definition gate_resetReqs :: "ref \<Rightarrow> world \<Rightarrow> world" where
  "gate_resetReqs r w = on_cell resetReqs r w"

definition gate_toState :: "ref \<Rightarrow> state \<Rightarrow> world \<Rightarrow> world" where
  "gate_toState r st w = on_cell (toState st) r w"

definition gate_getState :: "world \<Rightarrow> ref \<Rightarrow> state" where
  "gate_getState w r = getState (cell (heap w r))"

definition gate_noReqs :: "world \<Rightarrow> ref \<Rightarrow> bool" where
  "gate_noReqs w r = noReqs (cell (heap w r))"

definition gate_isReady :: "world \<Rightarrow> ref \<Rightarrow> bool" where
  "gate_isReady w r \<longleftrightarrow> getState (cell (heap w r)) = stateReady"

definition byID :: "world \<Rightarrow> uuid \<Rightarrow> error + ref" where
  "byID w i =
     (if i = gid (heap w (drt w)) then Inr (drt w)
      else case Set_Get (tgs w) i of
        Some r \<Rightarrow> Inr r
      | None \<Rightarrow> (case Set_Get (wgs w) i of Some r \<Rightarrow> Inr r | None \<Rightarrow> Inl ErrGateNotFound))"

definition ByID :: "world \<Rightarrow> uuid \<Rightarrow> error + ref" where
  "ByID w i =
     (case byID w i of
        Inl err \<Rightarrow> Inl err
      | Inr r \<Rightarrow> if \<not> gate_isReady w r then Inl ErrGateNotReady else Inr r)"

subsection \<open>Admission and shutdown\<close>

text \<open>
  \<open>Set.New(ctx, kind)\<close>. \<open>fres\<close> is what the Tor factory returns if it is called: an
  error, or a new Tor gate, which is stored at the next free address. The result is the
  world after the call, the returned id and the returned error.
\<close>

definition New :: "error + gate \<Rightarrow> Kind \<Rightarrow> world \<Rightarrow> world \<times> uuid \<times> error option" where
  "New fres knd w =
     (if knd \<noteq> KindTor then (w, uuid_Nil, Some ErrKindNotSupported)
      else if isShutting w then (w, uuid_Nil, Some ErrSetIsShutting)
      else if int (Set_Len (tgs w)) \<ge> TorMax w then (w, uuid_Nil, Some ErrTorMaxReached)
      else case fres of
        Inl err \<Rightarrow> (w, uuid_Nil, Some err)
      | Inr gt \<Rightarrow>
          (w\<lparr>heap := (heap w)(nextref w := gt),
             nextref := Suc (nextref w),
             tgs := Set_Set (gid gt) (nextref w) (tgs w)\<rparr>,
           gid gt, None))"

text \<open>\<open>errors.Join\<close> of the non-nil errors \<open>es\<close>: \<open>nil\<close> when there is none.\<close>

definition errors_Join :: "error list \<Rightarrow> error option" where
  "errors_Join es = (if es = [] then None else Some (Joined es))"

text \<open>
  \<open>Set.Shutdown(ctx)\<close>. The body runs under \<open>onceShut\<close>: it closes the \<open>shutting\<close>
  channel (\<open>closeOrSkip\<close> leaves a closed channel closed) and closes every gate;
  \<open>errs\<close> are the non-nil errors the two fan-outs collect. Closing a gate's device
  changes neither its cell nor the maps.
\<close>

definition Shutdown :: "error list \<Rightarrow> world \<Rightarrow> world \<times> error option" where
  "Shutdown errs w =
     (if onceShut w then (w, errors_Join [])
      else (w\<lparr>onceShut := True, shutting := True\<rparr>, errors_Join errs))"

subsection \<open>Drain, completion, refresh and close\<close>

text \<open>
  \<open>Set.toState(gt, st)\<close>: reset the counter, request the state, and put a Tor or
  WireGuard gate (by the type of the object) into its map. The \<open>default\<close> branch of the
  type switch cannot be taken: the three gate types are all there are.
\<close>

definition Set_toState :: "ref \<Rightarrow> state \<Rightarrow> world \<Rightarrow> world \<times> error option" where
  "Set_toState gt st w =
     (let w1 = gate_resetReqs gt w;
          w2 = gate_toState gt st w1
      in case gtype (heap w2 gt) of
           TDirect \<Rightarrow> (w2, None)
         | TTor \<Rightarrow> (w2\<lparr>tgs := Set_Set (gid (heap w2 gt)) gt (tgs w2)\<rparr>, None)
         | TWireGuard \<Rightarrow> (w2\<lparr>wgs := Set_Set (gid (heap w2 gt)) gt (wgs w2)\<rparr>, None))"

text \<open>
  What other goroutines do to the world while a loop waits: requests that already hold
  a gate call \<open>AddReq\<close> and \<open>DidReq\<close> on it, and \<open>Shutdown\<close> closes the latch.
\<close>

datatype env_act = EnvAddReq ref | EnvDidReq ref | EnvShutdown

fun env_step :: "world \<Rightarrow> env_act \<Rightarrow> world" where
  "env_step w (EnvAddReq r) = gate_AddReq r w"
| "env_step w (EnvDidReq r) = gate_DidReq r w"
| "env_step w EnvShutdown = fst (Shutdown [] w)"

definition env_acts :: "env_act list \<Rightarrow> world \<Rightarrow> world" where
  "env_acts acts w = foldl env_step w acts"

text \<open>
  The \<open>select\<close> at the end of each round of the drain loop returns either because the
  ticker fired or because the loop's context is done, with \<open>rctx.Err()\<close>:
  \<open>context_DeadlineExceeded\<close> when \<open>StateLoopTout\<close> (or an earlier deadline of the
  caller) passed, \<open>context_Canceled\<close> when the caller cancelled. A schedule lists, for
  each round that reaches the \<open>select\<close>, what other goroutines did meanwhile and which
  case fired.
\<close>

datatype select_ev = TickFired | CtxDone error

type_synonym schedule = "(env_act list \<times> select_ev) list"

text \<open>
  The loop of \<open>forState\<close>. \<open>None\<close>: the schedule ended while the loop was still
  waiting.
\<close>

fun forState_loop :: "schedule \<Rightarrow> ref \<Rightarrow> state \<Rightarrow> world \<Rightarrow> (world \<times> error option) option" where
  "forState_loop sched gt origst w =
     (if isShutting w then Some (w, Some ErrSetIsShutting)
      else if gate_noReqs w gt then Some (w, None)
      else case sched of
        [] \<Rightarrow> None
      | (acts, ev) # rest \<Rightarrow>
          (case ev of
             CtxDone err \<Rightarrow> Some (fst (Set_toState gt origst (env_acts acts w)), Some err)
           | TickFired \<Rightarrow> forState_loop rest gt origst (env_acts acts w)))"

declare forState_loop.simps [simp del]

definition forState :: "schedule \<Rightarrow> ref \<Rightarrow> state \<Rightarrow> world \<Rightarrow> (world \<times> error option) option" where
  "forState sched gt st w =
     (let origst = gate_getState w gt;
          w1 = gate_toState gt st w;
          i = gid (heap w1 gt);
          w2 = (if kind (heap w1 gt) = KindTor then w1\<lparr>tgs := Set_Remove i (tgs w1)\<rparr>
                else if kind (heap w1 gt) = KindWireGuard then w1\<lparr>wgs := Set_Remove i (wgs w1)\<rparr>
                else w1)
      in forState_loop sched gt origst w2)"

text \<open>
  \<open>refresh()\<close> of a gate: not implemented for Direct and WireGuard; a Tor gate whose
  \<open>refreshing\<close> flag is already set answers \<open>ErrGateIsRefreshing\<close>, and otherwise sets
  the flag, sends the signal (\<open>sig\<close> is what the device returns) and clears the flag.
  \<open>refreshOne\<close> and \<open>shutdownOne\<close> run the call in a goroutine and return the
  context's error if the context is done first.
\<close>

definition gate_refresh :: "error option \<Rightarrow> gate \<Rightarrow> error option" where
  "gate_refresh sig g =
     (case gtype g of
        TDirect \<Rightarrow> Some ErrNotImplemented
      | TWireGuard \<Rightarrow> Some ErrNotImplemented
      | TTor \<Rightarrow> if snd (CompareAndSwapUint32 (refreshing g) 0 1) then sig
                else Some ErrGateIsRefreshing)"

definition gate_close :: "error option \<Rightarrow> gate \<Rightarrow> error option" where
  "gate_close dev g = (case gtype g of TDirect \<Rightarrow> None | TTor \<Rightarrow> dev | TWireGuard \<Rightarrow> dev)"

datatype call_ev = CallCtxDone error | CallReturned "error option"

definition refreshOne :: "call_ev \<Rightarrow> gate \<Rightarrow> error option" where
  "refreshOne ev g = (case ev of CallCtxDone err \<Rightarrow> Some err | CallReturned sig \<Rightarrow> gate_refresh sig g)"

definition shutdownOne :: "call_ev \<Rightarrow> gate \<Rightarrow> error option" where
  "shutdownOne ev g = (case ev of CallCtxDone err \<Rightarrow> Some err | CallReturned dev \<Rightarrow> gate_close dev g)"

definition RefreshOne :: "schedule \<Rightarrow> call_ev \<Rightarrow> uuid \<Rightarrow> world \<Rightarrow> (world \<times> error option) option" where
  "RefreshOne sched ev i w =
     (if i = gid (heap w (drt w)) then Some (w, Some ErrKindNotSupported)
      else case byID w i of
        Inl err \<Rightarrow> Some (w, Some err)
      | Inr gt \<Rightarrow>
          if kind (heap w gt) \<noteq> KindTor then Some (w, Some ErrKindNotSupported)
          else (case forState sched gt stateMaintenance w of
                  None \<Rightarrow> None
                | Some (w1, Some err) \<Rightarrow> Some (w1, Some err)
                | Some (w1, None) \<Rightarrow>
                    (case refreshOne ev (heap w1 gt) of
                       Some err \<Rightarrow> Some (w1, Some err)
                     | None \<Rightarrow> Some (Set_toState gt stateReady w1))))"

definition CloseOne :: "schedule \<Rightarrow> call_ev \<Rightarrow> uuid \<Rightarrow> world \<Rightarrow> (world \<times> error option) option" where
  "CloseOne sched ev i w =
     (if i = gid (heap w (drt w)) then Some (w, Some ErrKindNotSupported)
      else case byID w i of
        Inl err \<Rightarrow> Some (w, Some err)
      | Inr gt \<Rightarrow>
          (case forState sched gt stateClosed w of
             None \<Rightarrow> None
           | Some (w1, Some err) \<Rightarrow> Some (w1, Some err)
           | Some (w1, None) \<Rightarrow> Some (w1, shutdownOne ev (heap w1 gt))))"

text \<open>Calls on the set, in sequence: the operations that admit gates or close the latch.\<close>

datatype set_call = CallNew "error + gate" Kind | CallShutdown "error list"

fun set_step :: "world \<Rightarrow> set_call \<Rightarrow> world" where
  "set_step w (CallNew fres knd) = fst (New fres knd w)"
| "set_step w (CallShutdown errs) = fst (Shutdown errs w)"

definition set_calls :: "set_call list \<Rightarrow> world \<Rightarrow> world" where
  "set_calls cs w = foldl set_step w cs"

text \<open>
  The latch is consistent when \<open>onceShut\<close> having run means the channel is closed;
  a new set is, and every call keeps it so.
\<close>

definition latch_ok :: "world \<Rightarrow> bool" where
  "latch_ok w \<longleftrightarrow> (onceShut w \<longrightarrow> shutting w)"

text \<open>What concurrent requests and a shutdown leave alone.\<close>

definition same_frame :: "world \<Rightarrow> world \<Rightarrow> bool" where
  "same_frame w w' \<longleftrightarrow>
     tgs w' = tgs w \<and> wgs w' = wgs w \<and>
     (\<forall>r. gtype (heap w' r) = gtype (heap w r) \<and> kind (heap w' r) = kind (heap w r) \<and>
          gid (heap w' r) = gid (heap w r) \<and>
          stvalue (cell (heap w' r)) = stvalue (cell (heap w r)))"

text \<open>
  The set of the refresh scenario: the Direct gate and one Tor gate (id 7, at address 1,
  state Ready), on which \<open>AddReq\<close> was called once and \<open>DidReq\<close> never.
\<close>

definition busy_tor_set :: world where
  "busy_tor_set = gate_AddReq 1 (NewSet 128 (newDirect 9) [newTor 7] [])"

section \<open>Header helpers of the proxy service\<close>

text \<open>
  \<open>http.Header\<close> is \<open>map[string][]string\<close>. \<open>hdr["Connection"]\<close> reads the map under
  that very key; \<open>hdr.Del(key)\<close> deletes the entry under
  \<open>textproto.CanonicalMIMEHeaderKey(key)\<close>. The standard library is not part of the
  repository; its three functions used here are written out from their documented
  behaviour on bytes.
\<close>

type_synonym Header = "string \<rightharpoonup> string list"

text \<open>
  \<open>CanonicalMIMEHeaderKey\<close>: a key with a byte that is not a token character of a header
  name is returned unchanged; otherwise the first letter and every letter after a hyphen
  become upper case and every other letter lower case.
\<close>

definition validHeaderFieldByte :: "char \<Rightarrow> bool" where
  "validHeaderFieldByte c \<longleftrightarrow>
     (let n = (of_char c :: nat) in
        (0x30 \<le> n \<and> n \<le> 0x39) \<or> (0x41 \<le> n \<and> n \<le> 0x5A) \<or> (0x61 \<le> n \<and> n \<le> 0x7A) \<or>
        n \<in> {0x21, 0x23, 0x24, 0x25, 0x26, 0x27, 0x2A, 0x2B, 0x2D, 0x2E, 0x5E, 0x5F, 0x60, 0x7C, 0x7E})"

definition canon_byte :: "bool \<Rightarrow> char \<Rightarrow> char" where
  "canon_byte upper c =
     (let n = (of_char c :: nat) in
        if upper \<and> 0x61 \<le> n \<and> n \<le> 0x7A then char_of (n - 32)
        else if \<not> upper \<and> 0x41 \<le> n \<and> n \<le> 0x5A then char_of (n + 32)
        else c)"

fun canon_bytes :: "bool \<Rightarrow> string \<Rightarrow> string" where
  "canon_bytes upper [] = []"
| "canon_bytes upper (c # cs) =
     canon_byte upper c # canon_bytes (canon_byte upper c = CHR ''-'') cs"

definition CanonicalMIMEHeaderKey :: "string \<Rightarrow> string" where
  "CanonicalMIMEHeaderKey s = (if list_all validHeaderFieldByte s then canon_bytes True s else s)"

definition Header_Del :: "Header \<Rightarrow> string \<Rightarrow> Header" where
  "Header_Del hdr key = hdr(CanonicalMIMEHeaderKey key := None)"

text \<open>
  \<open>strings.TrimSpace\<close> removes leading and trailing white space as Unicode defines it,
  reading the string as UTF-8: the six ASCII characters tab, line feed, vertical tab, form
  feed, carriage return and space, and the runes U+0085, U+00A0, U+1680, U+2000 to U+200A,
  U+2028, U+2029, U+202F, U+205F and U+3000. \<open>space_runes\<close> lists their encodings. A
  rune is stripped from the left while the string starts with one of them and from the
  right while it ends with one; the count bounds the number of rounds by the length of the
  string, which is never reached before the stripping stops.
\<close>

definition space_runes :: "string list" where
  "space_runes =
     [[CHR 0x09], [CHR 0x0A], [CHR 0x0B], [CHR 0x0C], [CHR 0x0D], [CHR 0x20],
      [CHR 0xC2, CHR 0x85], [CHR 0xC2, CHR 0xA0], [CHR 0xE1, CHR 0x9A, CHR 0x80],
      [CHR 0xE2, CHR 0x80, CHR 0x80], [CHR 0xE2, CHR 0x80, CHR 0x81], [CHR 0xE2, CHR 0x80, CHR 0x82],
      [CHR 0xE2, CHR 0x80, CHR 0x83], [CHR 0xE2, CHR 0x80, CHR 0x84], [CHR 0xE2, CHR 0x80, CHR 0x85],
      [CHR 0xE2, CHR 0x80, CHR 0x86], [CHR 0xE2, CHR 0x80, CHR 0x87], [CHR 0xE2, CHR 0x80, CHR 0x88],
      [CHR 0xE2, CHR 0x80, CHR 0x89], [CHR 0xE2, CHR 0x80, CHR 0x8A], [CHR 0xE2, CHR 0x80, CHR 0xA8],
      [CHR 0xE2, CHR 0x80, CHR 0xA9], [CHR 0xE2, CHR 0x80, CHR 0xAF], [CHR 0xE2, CHR 0x81, CHR 0x9F],
      [CHR 0xE3, CHR 0x80, CHR 0x80]]"

fun strip_runes :: "string list \<Rightarrow> nat \<Rightarrow> string \<Rightarrow> string" where
  "strip_runes rs 0 s = s"
| "strip_runes rs (Suc n) s =
     (case find (\<lambda>p. take (length p) s = p) rs of
        None \<Rightarrow> s
      | Some p \<Rightarrow> strip_runes rs n (drop (length p) s))"

definition TrimLeft :: "string \<Rightarrow> string" where
  "TrimLeft s = strip_runes space_runes (length s) s"

definition TrimRight :: "string \<Rightarrow> string" where
  "TrimRight s = rev (strip_runes (map rev space_runes) (length s) (rev s))"

definition TrimSpace :: "string \<Rightarrow> string" where
  "TrimSpace s = TrimRight (TrimLeft s)"

text \<open>
  \<open>strings.Split(s, ",")\<close>: the pieces between commas, one more than there are commas
  (the empty string gives one empty piece).
\<close>

fun Split_comma :: "string \<Rightarrow> string list" where
  "Split_comma [] = [[]]"
| "Split_comma (c # cs) =
     (if c = CHR '','' then [] # Split_comma cs
      else (case Split_comma cs of [] \<Rightarrow> [[c]] | x # xs \<Rightarrow> (c # x) # xs))"

text \<open>
  \<open>delConnectionHeaders\<close>: the slice \<open>h\<close> is read once, before anything is deleted, and
  both loops run over it in order.
\<close>

definition delConnectionHeaders :: "Header \<Rightarrow> Header" where
  "delConnectionHeaders hdr =
     (let h = (case hdr ''Connection'' of None \<Rightarrow> [] | Some vs \<Rightarrow> vs)
      in foldl (\<lambda>hd1 hi.
                  foldl (\<lambda>hd2 ssj. let v = TrimSpace ssj in if v \<noteq> [] then Header_Del hd2 v else hd2)
                    hd1 (Split_comma hi))
           hdr h)"

text \<open>
  The tokens the specification speaks of: the non-empty, white-space-trimmed pieces between
  commas of the values of the \<open>Connection\<close> header.
\<close>

definition connection_tokens :: "Header \<Rightarrow> string set" where
  "connection_tokens hdr =
     {v. \<exists>hi ssj. hi \<in> set (case hdr ''Connection'' of None \<Rightarrow> [] | Some vs \<Rightarrow> vs) \<and>
                  ssj \<in> set (Split_comma hi) \<and> v = TrimSpace ssj \<and> v \<noteq> []}"

section \<open>The error line of the CONNECT pipeline\<close>

text \<open>\<open>Error()\<close> of an error: its textual form.\<close>

fun error_Error :: "error \<Rightarrow> string" where
  "error_Error (ModelError m) = m"
| "error_Error context_Canceled = ''context canceled''"
| "error_Error context_DeadlineExceeded = ''context deadline exceeded''"
| "error_Error (Joined es) =
     (case es of [] \<Rightarrow> [] | e # rest \<Rightarrow> foldl (\<lambda>acc x. acc @ [CHR 0x0A] @ error_Error x) (error_Error e) rest)"
| "error_Error (Wrapped m e) = m"
| "error_Error (Foreign m) = m"

text \<open>
  \<open>strconv.Itoa\<close>: the decimal digits of an integer, most significant first, with a
  minus sign for a negative one.
\<close>

definition digit_char :: "nat \<Rightarrow> char" where
  "digit_char d = char_of (48 + d)"

fun decimal :: "nat \<Rightarrow> string" where
  "decimal n = (if n < 10 then [digit_char n] else decimal (n div 10) @ [digit_char (n mod 10)])"

declare decimal.simps [simp del]

definition strconv_Itoa :: "int \<Rightarrow> string" where
  "strconv_Itoa i = (if i < 0 then CHR ''-'' # decimal (nat (- i)) else decimal (nat i))"

text \<open>The number a string of decimal digits denotes.\<close>

definition decimal_value :: "string \<Rightarrow> nat" where
  "decimal_value s = foldl (\<lambda>a c. 10 * a + (of_char c - 48)) 0 s"

definition CRLF :: string where
  "CRLF = [CHR 0x0D, CHR 0x0A]"

text \<open>
  \<open>writeErrToConn(dst, rerr)\<close>. The writer is any \<open>io.Writer\<close>: \<open>wr\<close> gives the
  connection after \<open>io.WriteString\<close> and the error it returns. The length of a Go string
  is its number of bytes.
\<close>

definition writeErrToConn ::
  "('c \<Rightarrow> string \<Rightarrow> 'c \<times> error option) \<Rightarrow> 'c \<Rightarrow> error option \<Rightarrow> 'c \<times> error option" where
  "writeErrToConn wr dst rerr =
     (case rerr of
        None \<Rightarrow> (dst, None)
      | Some e \<Rightarrow>
          (let errm = error_Error e;
               msg = ''HTTP/1.1 502 Bad Gateway'' @ CRLF @ ''Content-Type: text/plain'' @ CRLF @
                     ''Content-Length: '' @ strconv_Itoa (int (length errm)) @ CRLF @ CRLF @ errm
           in wr dst msg))"

text \<open>A connection that takes every byte written to it, such as the in-memory pipe of the tests.\<close>

definition buffer_Write :: "string \<Rightarrow> string \<Rightarrow> string \<times> error option" where
  "buffer_Write buf s = (buf @ s, None)"

section \<open>The management handlers\<close>

text \<open>
  \<open>errors.Is(err, target)\<close> for the sentinel targets the handlers use: the error is the
  target, or wraps or joins an error that is.
\<close>

fun errors_Is :: "error \<Rightarrow> error \<Rightarrow> bool" where
  "errors_Is (Joined es) target = (Joined es = target \<or> list_ex (\<lambda>e. errors_Is e target) es)"
| "errors_Is (Wrapped m e) target = (Wrapped m e = target \<or> errors_Is e target)"
| "errors_Is err target = (err = target)"

definition StatusClientClosedConn :: nat where "StatusClientClosedConn = 499"
definition StatusOK :: nat where "StatusOK = 200"
definition StatusCreated :: nat where "StatusCreated = 201"
definition StatusBadRequest :: nat where "StatusBadRequest = 400"
definition StatusNotFound :: nat where "StatusNotFound = 404"
definition StatusConflict :: nat where "StatusConflict = 409"
definition StatusUnprocessableEntity :: nat where "StatusUnprocessableEntity = 422"
definition StatusInternalServerError :: nat where "StatusInternalServerError = 500"
definition StatusBadGateway :: nat where "StatusBadGateway = 502"
definition StatusGatewayTimeout :: nat where "StatusGatewayTimeout = 504"

lemmas Status_defs =
  StatusClientClosedConn_def StatusOK_def StatusCreated_def StatusBadRequest_def
  StatusNotFound_def StatusConflict_def StatusUnprocessableEntity_def
  StatusInternalServerError_def StatusBadGateway_def StatusGatewayTimeout_def

text \<open>
  A handler's answer is the status code it writes and, for an error answer, the error
  whose text is the body. The service behind the handler (an interface) and the parsers of
  the request are inputs: \<open>svc\<close> is what the service call returns.
\<close>

definition Proxy_List :: "error + 'a \<Rightarrow> nat \<times> error option" where
  "Proxy_List svc =
     (case svc of
        Inl err \<Rightarrow>
          if errors_Is err context_Canceled then (StatusClientClosedConn, Some err)
          else if errors_Is err ErrKindUnknown then (StatusBadRequest, Some err)
          else (StatusInternalServerError, Some err)
      | Inr gids \<Rightarrow> (StatusOK, None))"

definition Proxy_Create ::
  "error + string \<Rightarrow> (string \<Rightarrow> error + Kind) \<Rightarrow> (Kind \<Rightarrow> error + uuid) \<Rightarrow> nat \<times> error option" where
  "Proxy_Create body unmarshal svc =
     (case body of
        Inl err \<Rightarrow> (StatusBadRequest, Some err)
      | Inr raw \<Rightarrow>
          (case unmarshal raw of
             Inl err \<Rightarrow> (StatusBadRequest, Some err)
           | Inr knd \<Rightarrow>
               (case svc knd of
                  Inl err \<Rightarrow>
                    if errors_Is err context_Canceled then (StatusClientClosedConn, Some err)
                    else if errors_Is err ErrSetIsShutting then (StatusBadGateway, Some err)
                    else if errors_Is err ErrKindNotSupported then (StatusUnprocessableEntity, Some err)
                    else if errors_Is err ErrTorMaxReached then (StatusConflict, Some err)
                    else (StatusInternalServerError, Some err)
                | Inr i \<Rightarrow> (StatusCreated, None))))"

definition Proxy_Refresh ::
  "string \<Rightarrow> (string \<Rightarrow> error + uuid) \<Rightarrow> (uuid \<Rightarrow> error option) \<Rightarrow> nat \<times> error option" where
  "Proxy_Refresh gid_param parse svc =
     (if gid_param = [] then (StatusBadRequest, Some ErrInvalidParam)
      else case parse gid_param of
        Inl err \<Rightarrow> (StatusBadRequest, Some ErrInvalidUUID)
      | Inr i \<Rightarrow>
          (case svc i of
             Some err \<Rightarrow>
               if errors_Is err context_Canceled then (StatusClientClosedConn, Some err)
               else if errors_Is err context_DeadlineExceeded then (StatusGatewayTimeout, Some err)
               else if errors_Is err ErrSetIsShutting then (StatusBadGateway, Some err)
               else if errors_Is err ErrGateNotFound then (StatusNotFound, Some err)
               else if errors_Is err ErrKindNotSupported then (StatusUnprocessableEntity, Some err)
               else if errors_Is err ErrGateIsRefreshing then (StatusConflict, Some err)
               else (StatusInternalServerError, Some err)
           | None \<Rightarrow> (StatusOK, None)))"

definition Proxy_Stop ::
  "string \<Rightarrow> (string \<Rightarrow> error + uuid) \<Rightarrow> (uuid \<Rightarrow> error option) \<Rightarrow> nat \<times> error option" where
  "Proxy_Stop gid_param parse svc =
     (if gid_param = [] then (StatusBadRequest, Some ErrInvalidParam)
      else case parse gid_param of
        Inl err \<Rightarrow> (StatusBadRequest, Some ErrInvalidUUID)
      | Inr i \<Rightarrow>
          (case svc i of
             Some err \<Rightarrow>
               if errors_Is err context_Canceled then (StatusClientClosedConn, Some err)
               else if errors_Is err context_DeadlineExceeded then (StatusGatewayTimeout, Some err)
               else if errors_Is err ErrSetIsShutting then (StatusBadGateway, Some err)
               else if errors_Is err ErrGateNotFound then (StatusNotFound, Some err)
               else if errors_Is err ErrKindNotSupported then (StatusUnprocessableEntity, Some err)
               else (StatusInternalServerError, Some err)
           | None \<Rightarrow> (StatusOK, None)))"

text \<open>
  The status table of the specification, read from top to bottom: the code for an error is
  that of the first row it matches, and 500 when it matches none.
\<close>

definition spec_status :: "error \<Rightarrow> nat" where
  "spec_status err =
     (if errors_Is err context_Canceled then 499
      else if errors_Is err context_DeadlineExceeded then 504
      else if errors_Is err ErrKindUnknown then 400
      else if errors_Is err ErrKindNotSupported then 422
      else if errors_Is err ErrSetIsShutting then 502
      else if errors_Is err ErrTorMaxReached then 409
      else if errors_Is err ErrGateNotFound then 404
      else if errors_Is err ErrGateIsRefreshing then 409
      else if errors_Is err ErrInvalidParam \<or> errors_Is err ErrInvalidUUID then 400
      else 500)"

text \<open>
  The four management operations, the status each handler answers when the service call
  fails with \<open>err\<close> (the request itself being well formed), and the sentinels each
  handler's \<open>switch\<close> tests, in its order.
\<close>

datatype mgmt_op = OpList | OpCreate | OpRefresh | OpStop

fun op_status :: "mgmt_op \<Rightarrow> error \<Rightarrow> nat" where
  "op_status OpList err = fst (Proxy_List (Inl err :: error + unit))"
| "op_status OpCreate err = fst (Proxy_Create (Inr []) (\<lambda>raw. Inr KindTor) (\<lambda>knd. Inl err))"
| "op_status OpRefresh err = fst (Proxy_Refresh ''id'' (\<lambda>s. Inr 0) (\<lambda>i. Some err))"
| "op_status OpStop err = fst (Proxy_Stop ''id'' (\<lambda>s. Inr 0) (\<lambda>i. Some err))"

fun handled :: "mgmt_op \<Rightarrow> error list" where
  "handled OpList = [context_Canceled, ErrKindUnknown]"
| "handled OpCreate = [context_Canceled, ErrSetIsShutting, ErrKindNotSupported, ErrTorMaxReached]"
| "handled OpRefresh =
     [context_Canceled, context_DeadlineExceeded, ErrSetIsShutting, ErrGateNotFound,
      ErrKindNotSupported, ErrGateIsRefreshing]"
| "handled OpStop =
     [context_Canceled, context_DeadlineExceeded, ErrSetIsShutting, ErrGateNotFound,
      ErrKindNotSupported]"

section \<open>Evaluation rules\<close>

lemmas world_eval =
  set_calls_def New_def Shutdown_def isShutting_def NewSet_def Let_def newTor_def newDirect_def
  newWireGuard_def Set_Set_def Set_Get_def Set_Remove_def NewSetSize_def Set_Len_def
  Kind_defs uuid_Nil_def errors_Join_def

section \<open>Kinds: parsing and the JSON form\<close>

text \<open>
  C9. For every kind \<open>k\<close> of Direct, Tor, WireGuard, \<open>ParseKind(k.String())\<close> returns
  \<open>(k, nil)\<close>; \<open>ParseKind\<close> of \<open>"unknown"\<close>, and of any string that is none of
  \<open>"direct"\<close>, \<open>"tor"\<close>, \<open>"wireguard"\<close>, returns \<open>KindUnknown\<close> together with the
  \<open>ErrKindUnknown\<close> error.
\<close>

theorem ParseKind_roundtrip:
  "ParseKind (Kind_String KindDirect) = (KindDirect, None) \<and>
   ParseKind (Kind_String KindTor) = (KindTor, None) \<and>
   ParseKind (Kind_String KindWireGuard) = (KindWireGuard, None) \<and>
   ParseKind ''unknown'' = (KindUnknown, Some ErrKindUnknown) \<and>
   (\<forall>s. s \<notin> {''direct'', ''tor'', ''wireguard''} \<longrightarrow>
        ParseKind s = (KindUnknown, Some ErrKindUnknown))"
  by (simp add: ParseKind_def Kind_String_def Kind_defs)

theorem ParseKind_roundtrip_witness:
  "ParseKind (Kind_String KindTor) = (KindTor, None) \<and>
   ''openvpn'' \<notin> {''direct'', ''tor'', ''wireguard''} \<and>
   ParseKind ''openvpn'' = (KindUnknown, Some ErrKindUnknown)"
  using ParseKind_roundtrip by simp

lemma json_Marshal_kinds:
  "json_Marshal enc ''unknown'' = Inr (dquote # ''unknown'' @ [dquote])"
  "json_Marshal enc ''direct'' = Inr (dquote # ''direct'' @ [dquote])"
  "json_Marshal enc ''tor'' = Inr (dquote # ''tor'' @ [dquote])"
  "json_Marshal enc ''wireguard'' = Inr (dquote # ''wireguard'' @ [dquote])"
  by (simp_all add: json_Marshal_def json_html_safe_byte_def json_safe_byte_def dquote_def)

lemma json_Unmarshal_kinds:
  "json_Unmarshal dec (dquote # ''unknown'' @ [dquote]) = Inr ''unknown''"
  "json_Unmarshal dec (dquote # ''direct'' @ [dquote]) = Inr ''direct''"
  "json_Unmarshal dec (dquote # ''tor'' @ [dquote]) = Inr ''tor''"
  "json_Unmarshal dec (dquote # ''wireguard'' @ [dquote]) = Inr ''wireguard''"
  by (simp_all add: json_Unmarshal_def json_plain_literal_def json_trim_def json_space_def
      json_safe_byte_def dquote_def)

text \<open>
  C10. The JSON round trip of a kind is asymmetric at Unknown. \<open>MarshalJSON\<close> succeeds on
  the four named kinds, \<open>KindUnknown\<close> included (its JSON text is the string
  \<open>unknown\<close> in double quotes), and fails with \<open>ErrKindUnknown\<close> on every other
  value; \<open>UnmarshalJSON\<close> of that text fails with \<open>ErrKindUnknown\<close> and leaves the
  receiver as it was. So marshalling \<open>k\<close> and unmarshalling the result gives back \<open>k\<close>
  with no error exactly when \<open>k\<close> is Direct, Tor or WireGuard. This holds whatever the
  JSON library does outside the plain fragment (\<open>enc\<close>, \<open>dec\<close>) and whatever the
  receiver \<open>x\<close> held before.
\<close>

theorem Kind_JSON_asymmetric:
  "MarshalJSON enc k =
     (if k \<in> {KindUnknown, KindDirect, KindTor, KindWireGuard}
      then Inr ([dquote] @ k @ [dquote]) else Inl ErrKindUnknown) \<and>
   MarshalJSON enc KindUnknown = Inr ([dquote] @ ''unknown'' @ [dquote]) \<and>
   UnmarshalJSON dec x ([dquote] @ ''unknown'' @ [dquote]) = (x, Some ErrKindUnknown) \<and>
   ((\<exists>raw. MarshalJSON enc k = Inr raw \<and> UnmarshalJSON dec x raw = (k, None))
      \<longleftrightarrow> k \<in> {KindDirect, KindTor, KindWireGuard})"
  using json_Marshal_kinds[of enc] json_Unmarshal_kinds[of dec]
  by (auto simp add: MarshalJSON_def UnmarshalJSON_def ParseKind_def Kind_defs Err_defs)

section \<open>The gate state cell: transitions and the request counter\<close>

lemma getState_toState:
  "getState (toState r s) = (if legal_transition (getState s) r then r else getState s)"
  by (simp add: toState_def toReady_def toMaint_def toClosed_def getState_def
      CompareAndSwapUint32_def legal_transition_def state_defs)

lemma toStates_snoc: "toStates (reqs @ [r]) s = toState r (toStates reqs s)"
  by (simp add: toStates_def)

lemma toStates_reachable:
  "legal_transition\<^sup>*\<^sup>* stateReady (getState (toStates reqs newGateState))"
proof (induction reqs rule: rev_induct)
  case Nil
  show ?case by (simp add: toStates_def newGateState_def getState_def stateReady_def)
next
  case (snoc r reqs)
  show ?case
  proof (cases "legal_transition (getState (toStates reqs newGateState)) r")
    case True
    with snoc show ?thesis
      by (simp add: toStates_snoc getState_toState)
  next
    case False
    with snoc show ?thesis by (simp add: toStates_snoc getState_toState)
  qed
qed

lemma legal_reachable_states:
  "legal_transition\<^sup>*\<^sup>* stateReady b \<Longrightarrow> b \<in> {stateReady, stateMaintenance, stateClosed}"
  by (induction rule: rtranclp_induct) (auto simp: legal_transition_def)

text \<open>
  C3. Take any sequence \<open>reqs\<close> of transition requests applied to a fresh cell (initial
  state Ready), and any further request \<open>r\<close>. The state reached is one of Ready,
  Maintenance, Closed, and is reachable from Ready by legal transitions only. The request
  \<open>r\<close> moves the cell to \<open>r\<close> when that is a legal transition from the current state,
  and otherwise leaves the state unchanged (a silent no-op). Once the state is Closed, no
  request changes it.
\<close>

theorem gate_state_transitions:
  "getState (toStates reqs newGateState) \<in> {stateReady, stateMaintenance, stateClosed} \<and>
   legal_transition\<^sup>*\<^sup>* stateReady (getState (toStates reqs newGateState)) \<and>
   getState (toState r (toStates reqs newGateState)) =
     (if legal_transition (getState (toStates reqs newGateState)) r then r
      else getState (toStates reqs newGateState)) \<and>
   (getState (toStates reqs newGateState) = stateClosed \<longrightarrow>
      getState (toState r (toStates reqs newGateState)) = stateClosed)"
  using toStates_reachable[of reqs] legal_reachable_states[OF toStates_reachable[of reqs]]
  by (auto simp add: getState_toState legal_transition_def state_defs)

theorem gate_state_transitions_witness:
  "getState (toStates [stateMaintenance, stateClosed] newGateState) = stateClosed \<and>
   getState (toState stateReady (toStates [stateMaintenance, stateClosed] newGateState)) = stateClosed"
proof -
  have c: "getState (toStates [stateMaintenance, stateClosed] newGateState) = stateClosed"
    by (simp add: toStates_def toState_def toMaint_def toClosed_def getState_def newGateState_def
        CompareAndSwapUint32_def state_defs)
  from gate_state_transitions[of "[stateMaintenance, stateClosed]" stateReady] c
  show ?thesis by blast
qed

lemma unat_didReq: "unat (reqNum (didReq s)) = unat (reqNum s) - 1"
  by (simp add: didReq_def reqNum_def word_gt_0 unat_minus_one)

lemma req_calls_spec_gen:
  "unat (nreq s) + length (filter (\<lambda>c. c = AddReq) cs) < 2 ^ 64 \<Longrightarrow>
   unat (nreq (foldl req_step s cs)) = spec_count (unat (nreq s)) cs"
proof (induction cs arbitrary: s)
  case Nil
  show ?case by simp
next
  case (Cons c cs)
  show ?case
  proof (cases c)
    case AddReq
    from Cons.prems AddReq have lt: "unat (nreq s) + 1 < 2 ^ 64" by simp
    have u: "unat (nreq s + 1) = unat (nreq s) + 1"
      using lt by (simp add: unat_word_ariths)
    have "unat (nreq (addReq s)) + length (filter (\<lambda>c. c = AddReq) cs) < 2 ^ 64"
      using Cons.prems AddReq u by (simp add: addReq_def)
    from Cons.IH[OF this] show ?thesis
      using AddReq u by (simp add: addReq_def)
  next
    case DidReq
    have u: "unat (nreq (didReq s)) = unat (nreq s) - 1"
      using unat_didReq[of s] by (simp add: reqNum_def)
    have "unat (nreq (didReq s)) + length (filter (\<lambda>c. c = AddReq) cs) < 2 ^ 64"
      using Cons.prems DidReq u by simp
    from Cons.IH[OF this] show ?thesis
      using DidReq u by simp
  qed
qed

text \<open>
  C5. After any sequence \<open>cs\<close> of \<open>AddReq\<close> and \<open>DidReq\<close> calls on a fresh cell,
  with as many \<open>DidReq\<close> in excess as one likes, a further \<open>DidReq\<close> never wraps the
  unsigned counter: its value drops by one, stopping at zero, so \<open>DidReq\<close> on a zero
  counter leaves it at zero. The counter is an unsigned 64-bit value and so never negative;
  as long as fewer than \<open>2^64\<close> \<open>AddReq\<close> calls were made, it equals the count kept on
  the naturals by incrementing and by decrementing with saturation at zero.
\<close>

theorem counter_never_underflows:
  "unat (reqNum (didReq (req_calls cs newGateState))) = unat (reqNum (req_calls cs newGateState)) - 1 \<and>
   unat (reqNum (didReq (req_calls cs newGateState))) \<le> unat (reqNum (req_calls cs newGateState)) \<and>
   (reqNum (req_calls cs newGateState) = 0 \<longrightarrow> reqNum (didReq (req_calls cs newGateState)) = 0) \<and>
   0 \<le> uint (reqNum (req_calls cs newGateState)) \<and>
   (length (filter (\<lambda>c. c = AddReq) cs) < 2 ^ 64 \<longrightarrow>
      unat (reqNum (req_calls cs newGateState)) = spec_count 0 cs)"
proof -
  have a: "unat (reqNum (didReq (req_calls cs newGateState)))
           = unat (reqNum (req_calls cs newGateState)) - 1"
    by (rule unat_didReq)
  have b: "reqNum (req_calls cs newGateState) = 0 \<longrightarrow> reqNum (didReq (req_calls cs newGateState)) = 0"
    by (simp add: didReq_def reqNum_def)
  have c: "length (filter (\<lambda>c. c = AddReq) cs) < 2 ^ 64 \<longrightarrow>
      unat (reqNum (req_calls cs newGateState)) = spec_count 0 cs"
    using req_calls_spec_gen[of newGateState cs]
    by (simp add: req_calls_def reqNum_def newGateState_def)
  from a b c show ?thesis by simp
qed

theorem counter_never_underflows_witness:
  "reqNum (req_calls [AddReq, DidReq, DidReq] newGateState) = 0 \<and>
   reqNum (didReq (req_calls [AddReq, DidReq, DidReq] newGateState)) = 0 \<and>
   length (filter (\<lambda>c. c = AddReq) [AddReq, DidReq, DidReq]) < 2 ^ 64 \<and>
   unat (reqNum (req_calls [AddReq, DidReq, DidReq] newGateState)) = spec_count 0 [AddReq, DidReq, DidReq]"
  using counter_never_underflows[of "[AddReq, DidReq, DidReq]"]
  by (simp add: req_calls_def addReq_def didReq_def reqNum_def newGateState_def)

section \<open>Admission and shutdown\<close>

lemma Set_Len_card: "Set_Len m = card (dom (map_of m))"
  by (simp add: Set_Len_def length_remdups_card_conv dom_map_of_conv_image_fst)

lemma Set_Len_Set_le: "Set_Len (Set_Set k v m) \<le> Suc (Set_Len m)"
  by (simp add: Set_Len_card Set_Set_def update_conv' card_insert_if finite_dom_map_of)

lemma Set_Get_Set: "Set_Get (Set_Set k v m) k' = (if k' = k then Some v else Set_Get m k')"
  by (simp add: Set_Get_def Set_Set_def update_conv')

lemma Set_Get_Remove: "Set_Get (Set_Remove k m) k' = (if k' = k then None else Set_Get m k')"
  by (simp add: Set_Get_def Set_Remove_def delete_conv')

lemma set_step_TorMax: "TorMax (set_step w c) = TorMax w"
  by (cases c) (auto simp: New_def Shutdown_def split: sum.splits)

lemma set_step_cap:
  "int (Set_Len (tgs (set_step w c))) \<le> max (int (Set_Len (tgs w))) (TorMax w)"
proof (cases c)
  case (CallNew fres knd)
  show ?thesis
  proof (cases fres)
    case (Inl e)
    with CallNew show ?thesis by (simp add: New_def)
  next
    case (Inr gt)
    have "Set_Len (Set_Set (gid gt) (nextref w) (tgs w)) \<le> Suc (Set_Len (tgs w))"
      by (rule Set_Len_Set_le)
    with CallNew Inr show ?thesis by (auto simp add: New_def)
  qed
next
  case (CallShutdown errs)
  then show ?thesis by (simp add: Shutdown_def)
qed

lemma set_calls_cap_gen:
  "TorMax (foldl set_step w cs) = TorMax w \<and>
   int (Set_Len (tgs (foldl set_step w cs))) \<le> max (int (Set_Len (tgs w))) (TorMax w)"
proof (induction cs arbitrary: w)
  case Nil
  show ?case by simp
next
  case (Cons c cs)
  have 1: "TorMax (foldl set_step (set_step w c) cs) = TorMax w"
    using Cons.IH[of "set_step w c"] by (simp add: set_step_TorMax)
  have 2: "int (Set_Len (tgs (foldl set_step (set_step w c) cs)))
        \<le> max (int (Set_Len (tgs (set_step w c)))) (TorMax w)"
    using Cons.IH[of "set_step w c"] by (simp add: set_step_TorMax)
  from 1 2 set_step_cap[of w c] show ?case by auto
qed

lemma set_step_latch: "latch_ok w \<Longrightarrow> latch_ok (set_step w c)"
  by (cases c) (auto simp: latch_ok_def New_def Shutdown_def split: sum.splits)

lemma set_step_shutting: "shutting w \<Longrightarrow> shutting (set_step w c)"
  by (cases c) (auto simp: New_def Shutdown_def split: sum.splits)

lemma set_calls_latch: "latch_ok w \<Longrightarrow> latch_ok (foldl set_step w cs)"
  by (induction cs arbitrary: w) (auto simp: set_step_latch)

lemma set_calls_shutting: "shutting w \<Longrightarrow> shutting (foldl set_step w cs)"
  by (induction cs arbitrary: w) (auto simp: set_step_shutting)

lemma NewSet_latch: "latch_ok (NewSet tm d ts ws)"
  by (simp add: latch_ok_def NewSet_def Let_def)

lemma Shutdown_shutting: "latch_ok w \<Longrightarrow> shutting (fst (Shutdown errs w))"
  by (auto simp: latch_ok_def Shutdown_def)

lemma New_shutting:
  "shutting w \<Longrightarrow> New fres KindTor w = (w, uuid_Nil, Some ErrSetIsShutting)"
  by (simp add: New_def isShutting_def)

text \<open>
  C4 (as amended). \<open>New(ctx, kind)\<close> evaluates its admission rules in order: a kind
  other than Tor gives \<open>ErrKindNotSupported\<close>, also when the set is shutting; else a
  fired latch gives \<open>ErrSetIsShutting\<close>; else a Tor map of at least \<open>TorMax\<close>
  entries gives \<open>ErrTorMaxReached\<close>; else the factory runs, its error is passed on,
  and on success the new gate is in the Tor map under its id, which is returned. In all
  failing cases the set is unchanged. So no sequence of calls grows the Tor map beyond
  \<open>TorMax\<close>: after any sequence of \<open>New\<close> (and \<open>Shutdown\<close>) calls its size is at
  most the larger of \<open>TorMax\<close> and the size it started with, hence at most
  \<open>TorMax\<close> whenever the set started within the cap. And once \<open>Shutdown\<close> has been
  called on a set built by \<open>NewSet\<close>, every later \<open>New(ctx, Tor)\<close> returns
  \<open>ErrSetIsShutting\<close>.
\<close>

theorem New_admission:
  "(knd \<noteq> KindTor \<longrightarrow> New fres knd w = (w, uuid_Nil, Some ErrKindNotSupported)) \<and>
   (isShutting w \<longrightarrow> New fres KindTor w = (w, uuid_Nil, Some ErrSetIsShutting)) \<and>
   (\<not> isShutting w \<and> TorMax w \<le> int (Set_Len (tgs w)) \<longrightarrow>
      New fres KindTor w = (w, uuid_Nil, Some ErrTorMaxReached)) \<and>
   (\<not> isShutting w \<and> int (Set_Len (tgs w)) < TorMax w \<longrightarrow>
      New (Inl err) KindTor w = (w, uuid_Nil, Some err) \<and>
      snd (New (Inr gt) KindTor w) = (gid gt, None) \<and>
      Set_Get (tgs (fst (New (Inr gt) KindTor w))) (gid gt) = Some (nextref w) \<and>
      heap (fst (New (Inr gt) KindTor w)) (nextref w) = gt \<and>
      int (Set_Len (tgs (fst (New (Inr gt) KindTor w)))) \<le> TorMax w) \<and>
   int (Set_Len (tgs (set_calls cs w))) \<le> max (int (Set_Len (tgs w))) (TorMax w) \<and>
   (int (Set_Len (tgs w)) \<le> TorMax w \<longrightarrow>
      int (Set_Len (tgs (set_calls cs w))) \<le> TorMax (set_calls cs w)) \<and>
   New fres KindTor (set_calls cs (fst (Shutdown errs (set_calls cs0 (NewSet tm d ts ws)))))
     = (set_calls cs (fst (Shutdown errs (set_calls cs0 (NewSet tm d ts ws)))),
        uuid_Nil, Some ErrSetIsShutting)"
proof -
  have a: "knd \<noteq> KindTor \<longrightarrow> New fres knd w = (w, uuid_Nil, Some ErrKindNotSupported)"
    by (simp add: New_def)
  have b: "isShutting w \<longrightarrow> New fres KindTor w = (w, uuid_Nil, Some ErrSetIsShutting)"
    by (simp add: New_def)
  have c: "\<not> isShutting w \<and> TorMax w \<le> int (Set_Len (tgs w)) \<longrightarrow>
      New fres KindTor w = (w, uuid_Nil, Some ErrTorMaxReached)"
    by (simp add: New_def)
  have d: "\<not> isShutting w \<and> int (Set_Len (tgs w)) < TorMax w \<longrightarrow>
      New (Inl err) KindTor w = (w, uuid_Nil, Some err) \<and>
      snd (New (Inr gt) KindTor w) = (gid gt, None) \<and>
      Set_Get (tgs (fst (New (Inr gt) KindTor w))) (gid gt) = Some (nextref w) \<and>
      heap (fst (New (Inr gt) KindTor w)) (nextref w) = gt \<and>
      int (Set_Len (tgs (fst (New (Inr gt) KindTor w)))) \<le> TorMax w"
    using Set_Len_Set_le[of "gid gt" "nextref w" "tgs w"]
    by (auto simp add: New_def Set_Get_Set)
  have e: "int (Set_Len (tgs (set_calls cs w))) \<le> max (int (Set_Len (tgs w))) (TorMax w)"
    using set_calls_cap_gen[of w cs] by (simp add: set_calls_def)
  have f: "int (Set_Len (tgs w)) \<le> TorMax w \<longrightarrow>
      int (Set_Len (tgs (set_calls cs w))) \<le> TorMax (set_calls cs w)"
    using set_calls_cap_gen[of w cs] by (auto simp add: set_calls_def)
  have "shutting (set_calls cs (fst (Shutdown errs (set_calls cs0 (NewSet tm d ts ws)))))"
    unfolding set_calls_def
    by (intro set_calls_shutting Shutdown_shutting set_calls_latch NewSet_latch)
  then have g: "New fres KindTor (set_calls cs (fst (Shutdown errs (set_calls cs0 (NewSet tm d ts ws)))))
     = (set_calls cs (fst (Shutdown errs (set_calls cs0 (NewSet tm d ts ws)))),
        uuid_Nil, Some ErrSetIsShutting)"
    by (rule New_shutting)
  from a b c d e f g show ?thesis by blast
qed

theorem New_admission_witness:
  "KindDirect \<noteq> KindTor \<and>
   New (Inr (newTor 3)) KindDirect (NewSet 2 (newDirect 9) [newTor 1] [])
     = (NewSet 2 (newDirect 9) [newTor 1] [], uuid_Nil, Some ErrKindNotSupported) \<and>
   \<not> isShutting (NewSet 2 (newDirect 9) [newTor 1] []) \<and>
   int (Set_Len (tgs (NewSet 2 (newDirect 9) [newTor 1] []))) < TorMax (NewSet 2 (newDirect 9) [newTor 1] []) \<and>
   snd (New (Inr (newTor 3)) KindTor (NewSet 2 (newDirect 9) [newTor 1] [])) = (3, None) \<and>
   int (Set_Len (tgs (set_calls [CallNew (Inr (newTor 3)) KindTor, CallNew (Inr (newTor 4)) KindTor]
                         (NewSet 2 (newDirect 9) [newTor 1] [])))) \<le> 2 \<and>
   isShutting (fst (Shutdown [] (NewSet 2 (newDirect 9) [newTor 1] []))) \<and>
   snd (New (Inr (newTor 3)) KindTor (fst (Shutdown [] (NewSet 2 (newDirect 9) [newTor 1] []))))
     = (uuid_Nil, Some ErrSetIsShutting) \<and>
   \<not> isShutting (NewSet 1 (newDirect 9) [newTor 1] []) \<and>
   TorMax (NewSet 1 (newDirect 9) [newTor 1] []) \<le> int (Set_Len (tgs (NewSet 1 (newDirect 9) [newTor 1] []))) \<and>
   snd (New (Inr (newTor 3)) KindTor (NewSet 1 (newDirect 9) [newTor 1] []))
     = (uuid_Nil, Some ErrTorMaxReached)"
proof -
  let ?w = "NewSet 2 (newDirect 9) [newTor 1] []"
  let ?w1 = "NewSet 1 (newDirect 9) [newTor 1] []"
  let ?cs = "[CallNew (Inr (newTor 3)) KindTor, CallNew (Inr (newTor 4)) KindTor]"
  have h1: "KindDirect \<noteq> KindTor" by (simp add: Kind_defs)
  have h2: "\<not> isShutting ?w" by (simp add: world_eval)
  have h3: "int (Set_Len (tgs ?w)) < TorMax ?w" by (simp add: world_eval)
  have h4: "isShutting (fst (Shutdown [] ?w))" by (simp add: world_eval)
  have h5: "\<not> isShutting ?w1" by (simp add: world_eval)
  have h6: "TorMax ?w1 \<le> int (Set_Len (tgs ?w1))" by (simp add: world_eval)
  have h7: "TorMax ?w = 2" by (simp add: world_eval)
  have g3: "gid (newTor 3) = 3" by (simp add: newTor_def)
  note t1 = New_admission[of KindDirect "Inr (newTor 3)" ?w "Foreign []" "newTor 3" ?cs "[]" "[]" 0 "newDirect 9" "[]" "[]"]
  note t2 = New_admission[of KindTor "Inr (newTor 3)" "fst (Shutdown [] ?w)" "Foreign []" "newTor 3" "[]" "[]" "[]" 0 "newDirect 9" "[]" "[]"]
  note t3 = New_admission[of KindTor "Inr (newTor 3)" ?w1 "Foreign []" "newTor 3" "[]" "[]" "[]" 0 "newDirect 9" "[]" "[]"]
  from t1 h1 have c1: "New (Inr (newTor 3)) KindDirect ?w = (?w, uuid_Nil, Some ErrKindNotSupported)"
    by blast
  from t1 h2 h3 have c2: "snd (New (Inr (newTor 3)) KindTor ?w) = (gid (newTor 3), None)"
    by blast
  from t1 h3 h7 have c3: "int (Set_Len (tgs (set_calls ?cs ?w))) \<le> 2"
    by (metis max.absorb2 less_imp_le)
  from t2 h4 have c4: "snd (New (Inr (newTor 3)) KindTor (fst (Shutdown [] ?w))) = (uuid_Nil, Some ErrSetIsShutting)"
    by (metis snd_conv)
  from t3 h5 h6 have c5: "snd (New (Inr (newTor 3)) KindTor ?w1) = (uuid_Nil, Some ErrTorMaxReached)"
    by (metis snd_conv)
  from h1 h2 h3 h4 h5 h6 c1 c2 c3 c4 c5 g3 show ?thesis by simp
qed

text \<open>
  Without a condition on the set the calls start from, the cap does not hold:
  \<open>NewSet\<close> accepts more Tor gates than \<open>TorMax\<close>, and after a call of
  \<open>New(ctx, Tor)\<close> (which is refused) the map still holds two gates with \<open>TorMax = 1\<close>.
\<close>

theorem New_cap_counterexample:
  "TorMax (set_calls [CallNew (Inr (newTor 3)) KindTor] (NewSet 1 (newDirect 9) [newTor 1, newTor 2] []))
     < int (Set_Len (tgs (set_calls [CallNew (Inr (newTor 3)) KindTor]
                            (NewSet 1 (newDirect 9) [newTor 1, newTor 2] []))))"
  by (simp add: world_eval)

section \<open>Drain and refresh\<close>

lemma same_frame_refl: "same_frame w w"
  by (simp add: same_frame_def)

lemma same_frame_trans: "same_frame a b \<Longrightarrow> same_frame b c \<Longrightarrow> same_frame a c"
  by (simp add: same_frame_def)

lemma env_step_frame: "same_frame w (env_step w a)"
  by (cases a)
     (auto simp: same_frame_def gate_AddReq_def gate_DidReq_def on_cell_def addReq_def didReq_def
        Shutdown_def)

lemma env_acts_frame: "same_frame w (env_acts acts w)"
  unfolding env_acts_def
proof (induction acts arbitrary: w)
  case Nil
  show ?case by (simp add: same_frame_refl)
next
  case (Cons a acts)
  from env_step_frame[of w a] Cons[of "env_step w a"] show ?case
    by (auto intro: same_frame_trans)
qed

lemma forState_loop_Nil:
  "forState_loop [] gt origst w =
     (if isShutting w then Some (w, Some ErrSetIsShutting)
      else if gate_noReqs w gt then Some (w, None) else None)"
  by (subst forState_loop.simps) simp

lemma forState_loop_Cons:
  "forState_loop ((acts, ev) # rest) gt origst w =
     (if isShutting w then Some (w, Some ErrSetIsShutting)
      else if gate_noReqs w gt then Some (w, None)
      else case ev of
             CtxDone err \<Rightarrow> Some (fst (Set_toState gt origst (env_acts acts w)), Some err)
           | TickFired \<Rightarrow> forState_loop rest gt origst (env_acts acts w))"
  by (subst forState_loop.simps) simp

lemma forState_loop_done:
  "forState_loop sched gt origst w = Some (w', Some context_DeadlineExceeded) \<Longrightarrow>
   \<exists>w1. same_frame w w1 \<and> w' = fst (Set_toState gt origst w1)"
proof (induction sched arbitrary: w)
  case Nil
  then show ?case by (simp add: forState_loop_Nil Err_defs split: if_splits)
next
  case (Cons p sched)
  obtain acts ev where p: "p = (acts, ev)" by (cases p)
  from Cons.prems p have ns: "\<not> isShutting w" "\<not> gate_noReqs w gt"
    by (auto simp: forState_loop_Cons Err_defs split: if_splits)
  show ?case
  proof (cases ev)
    case TickFired
    with Cons.prems p ns
    have "forState_loop sched gt origst (env_acts acts w) = Some (w', Some context_DeadlineExceeded)"
      by (simp add: forState_loop_Cons)
    from Cons.IH[OF this] obtain w1 where
      "same_frame (env_acts acts w) w1" "w' = fst (Set_toState gt origst w1)" by blast
    with env_acts_frame[of w acts] show ?thesis
      by (blast intro: same_frame_trans)
  next
    case (CtxDone e)
    with Cons.prems p ns have "w' = fst (Set_toState gt origst (env_acts acts w))"
      by (simp add: forState_loop_Cons)
    with env_acts_frame[of w acts] show ?thesis by blast
  qed
qed

lemma Set_toState_props:
  "gate_noReqs (fst (Set_toState gt st w)) gt"
  "gate_getState (fst (Set_toState gt st w)) gt = getState (toState st (cell (heap w gt)))"
  "gtype (heap w gt) = TTor \<Longrightarrow>
     Set_Get (tgs (fst (Set_toState gt st w))) (gid (heap w gt)) = Some gt"
  "gtype (heap w gt) = TWireGuard \<Longrightarrow>
     Set_Get (wgs (fst (Set_toState gt st w))) (gid (heap w gt)) = Some gt"
  by (auto simp add: Set_toState_def Let_def gate_resetReqs_def gate_toState_def on_cell_def
      gate_noReqs_def gate_getState_def noReqs_def resetReqs_def getState_def Set_Get_def
      Set_Set_def update_conv' toState_def toReady_def toMaint_def toClosed_def
      CompareAndSwapUint32_def split: gateType.splits)

lemma revert_state:
  "getState (toState orig (c\<lparr>stvalue := stvalue (toState st c0)\<rparr>)) =
     (if st = stateClosed \<and> (orig = stateReady \<or> orig = stateMaintenance) then stateClosed else orig)"
  if "stvalue c0 = orig"
  using that
  by (auto simp add: toState_def toReady_def toMaint_def toClosed_def getState_def
      CompareAndSwapUint32_def state_defs)

lemma forState_deadline:
  assumes res: "forState sched gt st w = Some (w', Some context_DeadlineExceeded)"
  shows "gate_noReqs w' gt"
    and "gate_getState w' gt =
           (if st = stateClosed \<and> (gate_getState w gt = stateReady \<or> gate_getState w gt = stateMaintenance)
            then stateClosed else gate_getState w gt)"
    and "gtype (heap w gt) = TTor \<Longrightarrow> Set_Get (tgs w') (gid (heap w gt)) = Some gt"
    and "gtype (heap w gt) = TWireGuard \<Longrightarrow> Set_Get (wgs w') (gid (heap w gt)) = Some gt"
proof -
  define w1 where "w1 = gate_toState gt st w"
  define w2 where "w2 = (if kind (heap w1 gt) = KindTor then w1\<lparr>tgs := Set_Remove (gid (heap w1 gt)) (tgs w1)\<rparr>
                else if kind (heap w1 gt) = KindWireGuard then w1\<lparr>wgs := Set_Remove (gid (heap w1 gt)) (wgs w1)\<rparr>
                else w1)"
  have "forState_loop sched gt (gate_getState w gt) w2 = Some (w', Some context_DeadlineExceeded)"
    using res unfolding forState_def Let_def w1_def w2_def .
  from forState_loop_done[OF this] obtain w3 where
    fr: "same_frame w2 w3" and w': "w' = fst (Set_toState gt (gate_getState w gt) w3)" by blast
  have h2: "gtype (heap w2 gt) = gtype (heap w gt)" "gid (heap w2 gt) = gid (heap w gt)"
    "stvalue (cell (heap w2 gt)) = stvalue (toState st (cell (heap w gt)))"
    by (simp_all add: w2_def w1_def gate_toState_def on_cell_def)
  with fr have h3: "gtype (heap w3 gt) = gtype (heap w gt)" "gid (heap w3 gt) = gid (heap w gt)"
    "stvalue (cell (heap w3 gt)) = stvalue (toState st (cell (heap w gt)))"
    by (simp_all add: same_frame_def)
  show "gate_noReqs w' gt" by (simp add: w' Set_toState_props)
  have "cell (heap w3 gt) = (cell (heap w3 gt))\<lparr>stvalue := stvalue (toState st (cell (heap w gt)))\<rparr>"
    using h3(3) by simp
  then have "getState (toState (gate_getState w gt) (cell (heap w3 gt))) =
     (if st = stateClosed \<and> (gate_getState w gt = stateReady \<or> gate_getState w gt = stateMaintenance)
      then stateClosed else gate_getState w gt)"
    using revert_state[where ?c0.0 = "cell (heap w gt)" and orig = "gate_getState w gt"
        and c = "cell (heap w3 gt)" and st = st]
    by (simp add: gate_getState_def getState_def)
  then show "gate_getState w' gt =
           (if st = stateClosed \<and> (gate_getState w gt = stateReady \<or> gate_getState w gt = stateMaintenance)
            then stateClosed else gate_getState w gt)"
    by (simp add: w' Set_toState_props)
  show "gtype (heap w gt) = TTor \<Longrightarrow> Set_Get (tgs w') (gid (heap w gt)) = Some gt"
    using Set_toState_props(3)[of w3 gt "gate_getState w gt"] h3 by (simp add: w')
  show "gtype (heap w gt) = TWireGuard \<Longrightarrow> Set_Get (wgs w') (gid (heap w gt)) = Some gt"
    using Set_toState_props(4)[of w3 gt "gate_getState w gt"] h3 by (simp add: w')
qed

lemmas gate_eval =
  forState_def forState_loop_Cons forState_loop_Nil Set_toState_def RefreshOne_def CloseOne_def
  byID_def env_acts_def gate_AddReq_def gate_DidReq_def gate_resetReqs_def gate_toState_def
  gate_getState_def gate_noReqs_def on_cell_def toState_def toReady_def toMaint_def toClosed_def
  CompareAndSwapUint32_def getState_def addReq_def didReq_def resetReqs_def noReqs_def reqNum_def
  newGateState_def state_defs Err_defs busy_tor_set_def

text \<open>
  C1. The specification asks that, when the drain loop of \<open>forState\<close> ends by the
  context's deadline, the gate's counter is zero, its state is the state it had before the
  call, it is in its kind's map again, and the deadline error is returned; the comment in
  \<open>forState\<close> says the same (recover the gate's state and put it back). The code does
  all of this for the target Maintenance (\<open>forState_deadline\<close>). For the target Closed
  it does not restore the state: the cell is already Closed, and the revert's
  \<open>toReady\<close> only swaps from Maintenance. Evaluated on a set with one busy Tor gate in
  state Ready: the call returns the deadline error, the counter is zero, the gate is back
  in the Tor map, and its state is Closed, not Ready. \<open>CloseOne\<close> on that gate's id is
  this very call.
\<close>

theorem forState_close_deadline_leaves_closed:
  "gate_getState busy_tor_set 1 = stateReady \<and>
   Set_Get (tgs busy_tor_set) 7 = Some 1 \<and>
   forState [([], CtxDone context_DeadlineExceeded)] 1 stateClosed busy_tor_set \<noteq> None \<and>
   snd (the (forState [([], CtxDone context_DeadlineExceeded)] 1 stateClosed busy_tor_set))
     = Some context_DeadlineExceeded \<and>
   gate_noReqs (fst (the (forState [([], CtxDone context_DeadlineExceeded)] 1 stateClosed busy_tor_set))) 1 \<and>
   Set_Get (tgs (fst (the (forState [([], CtxDone context_DeadlineExceeded)] 1 stateClosed busy_tor_set)))) 7
     = Some 1 \<and>
   gate_getState (fst (the (forState [([], CtxDone context_DeadlineExceeded)] 1 stateClosed busy_tor_set))) 1
     = stateClosed \<and>
   stateClosed \<noteq> stateReady \<and>
   CloseOne [([], CtxDone context_DeadlineExceeded)] (CallReturned None) 7 busy_tor_set
     = forState [([], CtxDone context_DeadlineExceeded)] 1 stateClosed busy_tor_set"
  by (simp add: gate_eval world_eval)

lemma forState_loop_ticks:
  "\<not> isShutting w \<Longrightarrow> \<not> gate_noReqs w gt \<Longrightarrow>
   forState_loop (replicate n ([], TickFired) @ [([], CtxDone e)]) gt origst w
     = Some (fst (Set_toState gt origst w), Some e)"
  by (induction n) (simp_all add: forState_loop_Cons env_acts_def)

text \<open>
  C2 (as amended). For a Tor gate in the Tor map, in state Ready, with a request in flight
  (\<open>AddReq\<close> called, \<open>DidReq\<close> not), on a set that is not shutting:
  \<open>RefreshOne\<close>, whose drain loop sees any number of ticks and then its deadline,
  returns the context's deadline error; after it the gate is in the Tor map again, its
  state is Ready, and its in-flight count has been reset to zero (the revert goes through
  \<open>Set.toState\<close>, which resets the counter on this path as on the success path).
\<close>

theorem RefreshOne_inflight_deadline:
  assumes "i \<noteq> gid (heap w (drt w))" and "Set_Get (tgs w) i = Some gt"
    and "gtype (heap w gt) = TTor" and "kind (heap w gt) = KindTor" and "gid (heap w gt) = i"
    and "gate_getState w gt = stateReady" and "\<not> gate_noReqs w gt" and "\<not> isShutting w"
  shows "\<exists>w'. RefreshOne (replicate n ([], TickFired) @ [([], CtxDone context_DeadlineExceeded)]) ev i w
               = Some (w', Some context_DeadlineExceeded) \<and>
              Set_Get (tgs w') i = Some gt \<and> gate_getState w' gt = stateReady \<and>
              reqNum (cell (heap w' gt)) = 0"
proof -
  let ?sched = "replicate n ([], TickFired) @ [([], CtxDone context_DeadlineExceeded)]"
  define w2 where "w2 = (gate_toState gt stateMaintenance w)
                          \<lparr>tgs := Set_Remove i (tgs (gate_toState gt stateMaintenance w))\<rparr>"
  have k: "kind (heap (gate_toState gt stateMaintenance w) gt) = KindTor"
      "gid (heap (gate_toState gt stateMaintenance w) gt) = i"
    using assms by (simp_all add: gate_toState_def on_cell_def)
  have ns: "\<not> isShutting w2" "\<not> gate_noReqs w2 gt"
    using assms
    by (simp_all add: w2_def isShutting_def gate_noReqs_def gate_toState_def on_cell_def noReqs_def
        toState_def toMaint_def state_defs)
  have fs: "forState ?sched gt stateMaintenance w
          = Some (fst (Set_toState gt (gate_getState w gt) w2), Some context_DeadlineExceeded)"
    unfolding forState_def Let_def k
    using forState_loop_ticks[OF ns, of n context_DeadlineExceeded "gate_getState w gt"]
    by (simp add: w2_def)
  define w' where "w' = fst (Set_toState gt (gate_getState w gt) w2)"
  have by_id: "byID w i = Inr gt"
    using assms by (simp add: byID_def)
  have r: "RefreshOne ?sched ev i w = Some (w', Some context_DeadlineExceeded)"
    using assms by_id fs by (simp add: RefreshOne_def w'_def)
  from fs have fs': "forState ?sched gt stateMaintenance w = Some (w', Some context_DeadlineExceeded)"
    by (simp add: w'_def)
  have 1: "Set_Get (tgs w') i = Some gt"
    using forState_deadline(3)[OF fs'] assms by simp
  have 2: "gate_getState w' gt = stateReady"
    using forState_deadline(2)[OF fs'] assms by (simp add: state_defs)
  have 3: "reqNum (cell (heap w' gt)) = 0"
    using forState_deadline(1)[OF fs'] by (simp add: gate_noReqs_def noReqs_def reqNum_def)
  from r 1 2 3 show ?thesis by blast
qed

theorem RefreshOne_inflight_deadline_witness:
  "7 \<noteq> gid (heap busy_tor_set (drt busy_tor_set)) \<and> Set_Get (tgs busy_tor_set) 7 = Some 1 \<and>
   gtype (heap busy_tor_set 1) = TTor \<and> kind (heap busy_tor_set 1) = KindTor \<and>
   gid (heap busy_tor_set 1) = 7 \<and> gate_getState busy_tor_set 1 = stateReady \<and>
   \<not> gate_noReqs busy_tor_set 1 \<and> \<not> isShutting busy_tor_set \<and>
   (\<exists>w'. RefreshOne (replicate 3 ([], TickFired) @ [([], CtxDone context_DeadlineExceeded)])
             (CallReturned None) 7 busy_tor_set
               = Some (w', Some context_DeadlineExceeded) \<and>
        Set_Get (tgs w') 7 = Some 1 \<and> gate_getState w' 1 = stateReady \<and>
        reqNum (cell (heap w' 1)) = 0)"
proof -
  have a: "7 \<noteq> gid (heap busy_tor_set (drt busy_tor_set))" "Set_Get (tgs busy_tor_set) 7 = Some 1"
    "gtype (heap busy_tor_set 1) = TTor" "kind (heap busy_tor_set 1) = KindTor"
    "gid (heap busy_tor_set 1) = 7"
    "gate_getState busy_tor_set 1 = stateReady" "\<not> gate_noReqs busy_tor_set 1"
    "\<not> isShutting busy_tor_set"
    by (simp_all add: gate_eval world_eval)
  from RefreshOne_inflight_deadline[OF a, of 3 "CallReturned None"] a show ?thesis by simp
qed

text \<open>
  That the count is left unchanged and non-zero does not hold on the busy Tor gate: the
  count is 1 before the call and 0 after it.
\<close>

theorem RefreshOne_inflight_counterexample:
  "reqNum (cell (heap busy_tor_set 1)) = 1 \<and>
   RefreshOne [([], TickFired), ([], CtxDone context_DeadlineExceeded)] (CallReturned None) 7
     busy_tor_set \<noteq> None \<and>
   snd (the (RefreshOne [([], TickFired), ([], CtxDone context_DeadlineExceeded)] (CallReturned None) 7
               busy_tor_set)) = Some context_DeadlineExceeded \<and>
   reqNum (cell (heap (fst (the (RefreshOne [([], TickFired), ([], CtxDone context_DeadlineExceeded)]
                                   (CallReturned None) 7 busy_tor_set))) 1)) = 0"
  by (simp add: gate_eval world_eval)

section \<open>Stripping the headers a Connection header lists\<close>

lemma strip_runes_done:
  "\<forall>p \<in> set rs. p \<noteq> [] \<Longrightarrow> length s \<le> n \<Longrightarrow>
   find (\<lambda>p. take (length p) (strip_runes rs n s) = p) rs = None"
proof (induction n arbitrary: s)
  case 0
  then show ?case by (auto simp: find_None_iff)
next
  case (Suc n)
  show ?case
  proof (cases "find (\<lambda>p. take (length p) s = p) rs")
    case None
    then show ?thesis by simp
  next
    case (Some p)
    then have p: "p \<in> set rs" "take (length p) s = p"
      by (auto simp: find_Some_iff)
    with Suc.prems(1) have "p \<noteq> []" by blast
    moreover have "length (take (length p) s) \<le> length s" by simp
    with p(2) have "length p \<le> length s" by simp
    ultimately have "length (drop (length p) s) \<le> n"
      using Suc.prems(2) \<open>length p \<le> length s\<close> by (cases p) auto
    from Suc.IH[OF Suc.prems(1) this] Some show ?thesis by simp
  qed
qed

lemma TrimLeft_done: "find (\<lambda>p. take (length p) (TrimLeft s) = p) space_runes = None"
  unfolding TrimLeft_def
  by (rule strip_runes_done) (simp_all add: space_runes_def)

lemma inner_del:
  "foldl (\<lambda>hd2 ssj. let v = TrimSpace ssj in if v \<noteq> [] then Header_Del hd2 v else hd2) h0 ts k =
     (if \<exists>t \<in> set ts. TrimSpace t \<noteq> [] \<and> CanonicalMIMEHeaderKey (TrimSpace t) = k then None else h0 k)"
  by (induction ts arbitrary: h0) (auto simp: Let_def Header_Del_def)

lemma outer_del:
  "foldl (\<lambda>hd1 hi.
            foldl (\<lambda>hd2 ssj. let v = TrimSpace ssj in if v \<noteq> [] then Header_Del hd2 v else hd2)
              hd1 (Split_comma hi)) h0 vs k =
     (if \<exists>hi \<in> set vs. \<exists>t \<in> set (Split_comma hi).
            TrimSpace t \<noteq> [] \<and> CanonicalMIMEHeaderKey (TrimSpace t) = k
      then None else h0 k)"
proof (induction vs arbitrary: h0)
  case Nil
  show ?case by simp
next
  case (Cons v vs)
  have "foldl (\<lambda>hd1 hi.
            foldl (\<lambda>hd2 ssj. let v = TrimSpace ssj in if v \<noteq> [] then Header_Del hd2 v else hd2)
              hd1 (Split_comma hi)) h0 (v # vs) k
      = (if \<exists>hi \<in> set vs. \<exists>t \<in> set (Split_comma hi).
            TrimSpace t \<noteq> [] \<and> CanonicalMIMEHeaderKey (TrimSpace t) = k
         then None
         else foldl (\<lambda>hd2 ssj. let v = TrimSpace ssj in if v \<noteq> [] then Header_Del hd2 v else hd2)
                h0 (Split_comma v) k)"
    by (simp only: foldl_Cons Cons.IH)
  also have "\<dots> = (if \<exists>hi \<in> set (v # vs). \<exists>t \<in> set (Split_comma hi).
            TrimSpace t \<noteq> [] \<and> CanonicalMIMEHeaderKey (TrimSpace t) = k
      then None else h0 k)"
    by (simp only: inner_del) auto
  finally show ?case .
qed

lemma delConnectionHeaders_key:
  "delConnectionHeaders hdr k =
     (if k \<in> CanonicalMIMEHeaderKey ` connection_tokens hdr then None else hdr k)"
proof -
  have "delConnectionHeaders hdr k =
     (if \<exists>hi \<in> set (case hdr ''Connection'' of None \<Rightarrow> [] | Some vs \<Rightarrow> vs).
           \<exists>t \<in> set (Split_comma hi).
            TrimSpace t \<noteq> [] \<and> CanonicalMIMEHeaderKey (TrimSpace t) = k
      then None else hdr k)"
    unfolding delConnectionHeaders_def by (simp only: Let_def[of "case_option _ _ _"] outer_del)
  also have "(\<exists>hi \<in> set (case hdr ''Connection'' of None \<Rightarrow> [] | Some vs \<Rightarrow> vs).
           \<exists>t \<in> set (Split_comma hi).
            TrimSpace t \<noteq> [] \<and> CanonicalMIMEHeaderKey (TrimSpace t) = k)
        \<longleftrightarrow> k \<in> CanonicalMIMEHeaderKey ` connection_tokens hdr"
    unfolding connection_tokens_def by (auto simp: image_iff)
  finally show ?thesis .
qed

text \<open>
  C6 (as amended). For every header map, \<open>delConnectionHeaders\<close> deletes exactly the
  entries whose key is the canonical MIME form of a non-empty, white-space-trimmed piece
  between commas of some value stored under \<open>Connection\<close>, and leaves every other entry
  as it was. The \<open>Connection\<close> entry is treated like any other: it stays unless one
  of those pieces is itself a spelling of \<open>Connection\<close>.
\<close>

theorem delConnectionHeaders_exact:
  "delConnectionHeaders hdr k =
     (if k \<in> CanonicalMIMEHeaderKey ` connection_tokens hdr then None else hdr k) \<and>
   delConnectionHeaders hdr ''Connection'' =
     (if ''Connection'' \<in> CanonicalMIMEHeaderKey ` connection_tokens hdr then None
      else hdr ''Connection'')"
  by (simp only: delConnectionHeaders_key simp_thms)

lemma canon_Connection: "CanonicalMIMEHeaderKey ''Connection'' = ''Connection''"
  "CanonicalMIMEHeaderKey ''close'' = ''Close''"
  "CanonicalMIMEHeaderKey ''keep-alive'' = ''Keep-Alive''"
  by code_simp+

lemma trim_ex: "TrimSpace '' Connection'' = ''Connection''" "TrimSpace ''close'' = ''close''"
   "TrimSpace ''  ''  = []"
  by code_simp+

lemma split_ex: "Split_comma ''close, Connection'' = [''close'', '' Connection'']"
  by simp

text \<open>
  That the step never deletes the \<open>Connection\<close> header fails on a header that lists
  itself, \<open>Connection: close, Connection\<close>: the entry is there before the step and
  gone after it.
\<close>

theorem delConnectionHeaders_counterexample:
  "delConnectionHeaders [''Connection'' \<mapsto> [''close, Connection'']] ''Connection'' = None \<and>
   [''Connection'' \<mapsto> [''close, Connection'']] ''Connection'' = Some [''close, Connection'']"
  by (simp add: delConnectionHeaders_def Let_def trim_ex canon_Connection Header_Del_def)

section \<open>The error line written to a hijacked connection\<close>

lemma digit_char_value: "d < 10 \<Longrightarrow> of_char (digit_char d) = 48 + d"
  by (simp add: digit_char_def)

lemma decimal_value_snoc: "decimal_value (s @ [c]) = 10 * decimal_value s + (of_char c - 48)"
  by (simp add: decimal_value_def)

lemma decimal_value_decimal: "decimal_value (decimal n) = n"
proof (induction n rule: decimal.induct)
  case (1 n)
  show ?case
  proof (cases "n < 10")
    case True
    then show ?thesis
      by (subst decimal.simps) (simp add: decimal_value_def digit_char_value)
  next
    case False
    with 1 have "decimal_value (decimal (n div 10)) = n div 10" by simp
    with False show ?thesis
      by (subst decimal.simps) (simp add: decimal_value_snoc digit_char_value)
  qed
qed

lemma decimal_digits: "c \<in> set (decimal n) \<Longrightarrow> c \<in> digit_char ` {0 ..< 10}"
proof (induction n rule: decimal.induct)
  case (1 n)
  show ?case
  proof (cases "n < 10")
    case True
    with "1.prems" show ?thesis
      by (subst (asm) decimal.simps) auto
  next
    case False
    with "1.prems" have "c \<in> set (decimal (n div 10)) \<or> c = digit_char (n mod 10)"
      by (subst (asm) decimal.simps) auto
    with 1(1)[OF False] show ?thesis by auto
  qed
qed

lemma decimal_20: "decimal 20 = ''20''"
  by code_simp

lemma digit_chars: "map digit_char [0 ..< 10] = ''0123456789''"
  by code_simp

lemma writeErrToConn_Some:
  "writeErrToConn wr dst (Some e) =
     wr dst (''HTTP/1.1 502 Bad Gateway'' @ [CHR 0x0D, CHR 0x0A] @
                ''Content-Type: text/plain'' @ [CHR 0x0D, CHR 0x0A] @
                ''Content-Length: '' @ decimal (length (error_Error e)) @
                [CHR 0x0D, CHR 0x0A, CHR 0x0D, CHR 0x0A] @ error_Error e)"
  by (simp add: writeErrToConn_def strconv_Itoa_def CRLF_def Let_def)

text \<open>
  C8. For a nil error \<open>writeErrToConn\<close> writes nothing and returns nil. For an error
  whose text \<open>m\<close> has \<open>N\<close> bytes it hands the writer, in one write, exactly the
  status line \<open>HTTP/1.1 502 Bad Gateway\<close>, CR LF, \<open>Content-Type: text/plain\<close>, CR LF,
  \<open>Content-Length: \<close> followed by the decimal digits of \<open>N\<close>, CR LF CR LF, and
  \<open>m\<close>; it returns what the write returns. The digits denote \<open>N\<close>. On a connection
  that takes every byte these bytes are appended to what it held, and for the error
  \<open>something_went_wrong\<close> the length written is 20.
\<close>

theorem writeErrToConn_line:
  "writeErrToConn wr dst None = (dst, None) \<and>
   writeErrToConn wr dst (Some e) =
     wr dst (''HTTP/1.1 502 Bad Gateway'' @ [CHR 0x0D, CHR 0x0A] @
                ''Content-Type: text/plain'' @ [CHR 0x0D, CHR 0x0A] @
                ''Content-Length: '' @ decimal (length (error_Error e)) @
                [CHR 0x0D, CHR 0x0A, CHR 0x0D, CHR 0x0A] @ error_Error e) \<and>
   decimal_value (decimal (length (error_Error e))) = length (error_Error e) \<and>
   set (decimal (length (error_Error e))) \<subseteq> set ''0123456789'' \<and>
   writeErrToConn buffer_Write buf (Some e) =
     (buf @ ''HTTP/1.1 502 Bad Gateway'' @ [CHR 0x0D, CHR 0x0A] @
             ''Content-Type: text/plain'' @ [CHR 0x0D, CHR 0x0A] @
             ''Content-Length: '' @ decimal (length (error_Error e)) @
             [CHR 0x0D, CHR 0x0A, CHR 0x0D, CHR 0x0A] @ error_Error e, None) \<and>
   writeErrToConn buffer_Write [] (Some (ModelError ''something_went_wrong'')) =
     (''HTTP/1.1 502 Bad Gateway'' @ [CHR 0x0D, CHR 0x0A] @
      ''Content-Type: text/plain'' @ [CHR 0x0D, CHR 0x0A] @
      ''Content-Length: 20'' @ [CHR 0x0D, CHR 0x0A, CHR 0x0D, CHR 0x0A] @
      ''something_went_wrong'', None)"
proof -
  have dig: "digit_char ` {0 ..< 10} = set ''0123456789''"
  proof -
    have "digit_char ` {0 ..< 10} = set (map digit_char [0 ..< 10])" by simp
    then show ?thesis by (simp only: digit_chars)
  qed
  have 1: "set (decimal (length (error_Error e))) \<subseteq> set ''0123456789''"
    using decimal_digits[of _ "length (error_Error e)"] unfolding dig by blast
  have l: "length (error_Error (ModelError ''something_went_wrong'')) = 20" by simp
  have 2: "writeErrToConn buffer_Write [] (Some (ModelError ''something_went_wrong'')) =
     (''HTTP/1.1 502 Bad Gateway'' @ [CHR 0x0D, CHR 0x0A] @
      ''Content-Type: text/plain'' @ [CHR 0x0D, CHR 0x0A] @
      ''Content-Length: 20'' @ [CHR 0x0D, CHR 0x0A, CHR 0x0D, CHR 0x0A] @
      ''something_went_wrong'', None)"
    unfolding writeErrToConn_Some l decimal_20 by (simp add: buffer_Write_def)
  show ?thesis
    using 1 2 writeErrToConn_Some[of wr dst e] writeErrToConn_Some[of buffer_Write buf e]
    by (simp add: decimal_value_decimal buffer_Write_def writeErrToConn_def)
qed


section \<open>Status codes of the management handlers\<close>

lemma spec_status_sentinels:
  "spec_status context_Canceled = 499"
  "spec_status context_DeadlineExceeded = 504"
  "spec_status ErrKindUnknown = 400"
  "spec_status ErrKindNotSupported = 422"
  "spec_status ErrSetIsShutting = 502"
  "spec_status ErrTorMaxReached = 409"
  "spec_status ErrGateNotFound = 404"
  "spec_status ErrGateIsRefreshing = 409"
  "spec_status ErrInvalidParam = 400"
  "spec_status ErrInvalidUUID = 400"
  by (simp_all add: spec_status_def Err_defs)

text \<open>
  C7 (as amended). Each management handler maps the error of its service call through its
  own list of sentinels, tested in the order of its \<open>switch\<close>: the status is the one
  the table gives for the first sentinel of the list that the error matches, and 500 when
  it matches none; the body carries the error. The lists are: list - cancellation,
  KindUnknown; create - cancellation, SetIsShutting, KindNotSupported, TorMaxReached;
  refresh - cancellation, deadline exceeded, SetIsShutting, GateNotFound,
  KindNotSupported, GateIsRefreshing; stop - the list of refresh without
  GateIsRefreshing. The 400 answers for InvalidParam and InvalidUUID come from reading the
  request (an empty id, an id that does not parse), before the service is called, as does
  the 400 for a body whose kind does not parse.
\<close>

theorem handler_status_by_operation:
  "op_status op err =
     (case find (errors_Is err) (handled op) of Some t \<Rightarrow> spec_status t | None \<Rightarrow> 500) \<and>
   Proxy_List (Inl err) = (op_status OpList err, Some err) \<and>
   Proxy_Create (Inr raw) (\<lambda>r. Inr knd) (\<lambda>k. Inl err) = (op_status OpCreate err, Some err) \<and>
   Proxy_Refresh (c # cs) (\<lambda>s. Inr i) (\<lambda>j. Some err) = (op_status OpRefresh err, Some err) \<and>
   Proxy_Stop (c # cs) (\<lambda>s. Inr i) (\<lambda>j. Some err) = (op_status OpStop err, Some err) \<and>
   Proxy_Create (Inr raw) (\<lambda>r. Inl err) svc = (400, Some err) \<and>
   Proxy_Refresh [] parse svc' = (400, Some ErrInvalidParam) \<and>
   Proxy_Stop [] parse svc' = (400, Some ErrInvalidParam) \<and>
   Proxy_Refresh (c # cs) (\<lambda>s. Inl err) svc' = (400, Some ErrInvalidUUID) \<and>
   Proxy_Stop (c # cs) (\<lambda>s. Inl err) svc' = (400, Some ErrInvalidUUID)"
proof -
  have a: "op_status op err =
     (case find (errors_Is err) (handled op) of Some t \<Rightarrow> spec_status t | None \<Rightarrow> 500)"
  proof (cases op)
    case OpList
    then show ?thesis
      by (simp add: Proxy_List_def spec_status_sentinels Status_defs)
  next
    case OpCreate
    then show ?thesis
      by (simp add: Proxy_Create_def spec_status_sentinels Status_defs)
  next
    case OpRefresh
    then show ?thesis
      by (simp add: Proxy_Refresh_def spec_status_sentinels Status_defs)
  next
    case OpStop
    then show ?thesis
      by (simp add: Proxy_Stop_def spec_status_sentinels Status_defs)
  qed
  have b: "Proxy_List (Inl err) = (op_status OpList err, Some err)"
    by (simp add: Proxy_List_def)
  have c: "Proxy_Create (Inr raw) (\<lambda>r. Inr knd) (\<lambda>k. Inl err) = (op_status OpCreate err, Some err)"
    by (simp add: Proxy_Create_def)
  have d: "Proxy_Refresh (c # cs) (\<lambda>s. Inr i) (\<lambda>j. Some err) = (op_status OpRefresh err, Some err)"
    by (simp add: Proxy_Refresh_def)
  have e: "Proxy_Stop (c # cs) (\<lambda>s. Inr i) (\<lambda>j. Some err) = (op_status OpStop err, Some err)"
    by (simp add: Proxy_Stop_def)
  have f: "Proxy_Create (Inr raw) (\<lambda>r. Inl err) svc = (400, Some err)"
    "Proxy_Refresh [] parse svc' = (400, Some ErrInvalidParam)"
    "Proxy_Stop [] parse svc' = (400, Some ErrInvalidParam)"
    "Proxy_Refresh (c # cs) (\<lambda>s. Inl err) svc' = (400, Some ErrInvalidUUID)"
    "Proxy_Stop (c # cs) (\<lambda>s. Inl err) svc' = (400, Some ErrInvalidUUID)"
    by (simp_all add: Proxy_Create_def Proxy_Refresh_def Proxy_Stop_def Status_defs)
  from a b c d e f show ?thesis by simp
qed

text \<open>
  The single table does not hold for every operation: a deadline error from the service
  is answered with 500 by create (the table says 504), and SetIsShutting with 500 by list
  (the table says 502).
\<close>

theorem handler_status_counterexample:
  "op_status OpCreate context_DeadlineExceeded = 500 \<and>
   spec_status context_DeadlineExceeded = 504 \<and>
   op_status OpList ErrSetIsShutting = 500 \<and>
   spec_status ErrSetIsShutting = 502"
  by (simp add: Proxy_Create_def Proxy_List_def spec_status_sentinels Status_defs)
     (simp add: Err_defs)


end
